theory Spec2Isabelle
  imports Complex_Main "HOL-Library.Sublist" "HOL-Library.Multiset"
begin

section \<open>JavaScript values shared by the three source files\<close>

text \<open>
  A thrown JavaScript exception is a value of \<open>error\<close>: \<open>Error m\<close> is
  \<^verbatim>\<open>new Error(m)\<close> (also what a rejected HTTP call carries), \<open>TypeError m\<close> is the
  engine's error for a property read on \<^verbatim>\<open>null\<close> or \<^verbatim>\<open>undefined\<close>, and
  \<open>ReferenceError m\<close> the one for an identifier that is not in scope. A function that can
  throw returns \<open>error + 'a\<close>, \<open>Inl\<close> carrying the exception.
\<close>

datatype error = Error string | TypeError string | ReferenceError string

fun message_of :: "error \<Rightarrow> string" where
  "message_of (Error m) = m"
| "message_of (TypeError m) = m"
| "message_of (ReferenceError m) = m"

text \<open>\<^verbatim>\<open>String(n)\<close> for an integer: its decimal digits.\<close>

fun digit :: "nat \<Rightarrow> char" where
  "digit n = (''0123456789'' ! (n mod 10))"

fun showNat :: "nat \<Rightarrow> string" where
  "showNat n = (if n < 10 then [digit n] else showNat (n div 10) @ [digit n])"

declare showNat.simps [simp del]

definition showInt :: "int \<Rightarrow> string" where
  "showInt i = (if i < 0 then ''-'' @ showNat (nat (- i)) else showNat (nat i))"

text \<open>
  The primitive values a field of a database record or of the analyser's result can hold:
  \<^verbatim>\<open>undefined\<close> (also an absent key), \<^verbatim>\<open>null\<close>, a string or an integer.
  \<open>truthy\<close> is JavaScript's truthiness, \<open>toStr\<close> what a template literal
  \<^verbatim>\<open>`${v}`\<close> and string concatenation render, \<open>orElse a b\<close> is \<^verbatim>\<open>a || b\<close>.
\<close>

datatype jsval = Undefined | Null | Str string | Num int

fun truthy :: "jsval \<Rightarrow> bool" where
  "truthy Undefined = False"
| "truthy Null = False"
| "truthy (Str s) = (s \<noteq> [])"
| "truthy (Num n) = (n \<noteq> 0)"

fun toStr :: "jsval \<Rightarrow> string" where
  "toStr Undefined = ''undefined''"
| "toStr Null = ''null''"
| "toStr (Str s) = s"
| "toStr (Num n) = showInt n"

definition orElse :: "jsval \<Rightarrow> jsval \<Rightarrow> jsval" where
  "orElse a b = (if truthy a then a else b)"

text \<open>
  A \<open>string\<close> holds the UTF-8 bytes of a JavaScript string. \<open>whiteSpace\<close> lists
  the code points \<^verbatim>\<open>String.prototype.trim\<close> strips, each as its bytes: the six of
  ASCII (tab, line feed, vertical tab, form feed, carriage return, space), U+00A0,
  U+1680, U+2000 to U+200A, U+2028, U+2029, U+202F, U+205F, U+3000 and U+FEFF.
\<close>

definition whiteSpace :: "string list" where
  "whiteSpace =
     [[CHR 0x09], [CHR 0x0A], [CHR 0x0B], [CHR 0x0C], [CHR 0x0D], [CHR 0x20],
      [CHR 0xC2, CHR 0xA0],
      [CHR 0xE1, CHR 0x9A, CHR 0x80],
      [CHR 0xE2, CHR 0x80, CHR 0x80], [CHR 0xE2, CHR 0x80, CHR 0x81],
      [CHR 0xE2, CHR 0x80, CHR 0x82], [CHR 0xE2, CHR 0x80, CHR 0x83],
      [CHR 0xE2, CHR 0x80, CHR 0x84], [CHR 0xE2, CHR 0x80, CHR 0x85],
      [CHR 0xE2, CHR 0x80, CHR 0x86], [CHR 0xE2, CHR 0x80, CHR 0x87],
      [CHR 0xE2, CHR 0x80, CHR 0x88], [CHR 0xE2, CHR 0x80, CHR 0x89],
      [CHR 0xE2, CHR 0x80, CHR 0x8A],
      [CHR 0xE2, CHR 0x80, CHR 0xA8], [CHR 0xE2, CHR 0x80, CHR 0xA9],
      [CHR 0xE2, CHR 0x80, CHR 0xAF],
      [CHR 0xE2, CHR 0x81, CHR 0x9F],
      [CHR 0xE3, CHR 0x80, CHR 0x80],
      [CHR 0xEF, CHR 0xBB, CHR 0xBF]]"

text \<open>
  \<open>stripOne ws s\<close> removes one of the byte sequences \<open>ws\<close> from the start of
  \<open>s\<close> if \<open>s\<close> starts with one, and \<open>stripLeading ws s\<close> removes them as long
  as there is one. \<open>trim\<close> strips the white space at the start and, on the reversed
  string with the reversed sequences, at the end.
\<close>

fun stripOne :: "string list \<Rightarrow> string \<Rightarrow> string option" where
  "stripOne [] s = None"
| "stripOne (w # ws) s =
     (if w \<noteq> [] \<and> prefix w s then Some (drop (length w) s) else stripOne ws s)"

function stripLeading :: "string list \<Rightarrow> string \<Rightarrow> string" where
  "stripLeading ws s =
     (case stripOne ws s of None \<Rightarrow> s | Some rest \<Rightarrow> stripLeading ws rest)"
  by pat_completeness auto
termination
proof (relation "measure (\<lambda>(ws, s). length s)")
  show "wf (measure (\<lambda>(ws, s). length s))" by simp
next
  fix ws :: "string list" and s rest :: string
  assume "stripOne ws s = Some rest"
  then have "length rest < length s"
  proof (induction ws)
    case Nil
    then show ?case by simp
  next
    case (Cons w ws)
    show ?case
    proof (cases "w \<noteq> [] \<and> prefix w s")
      case True
      then have "rest = drop (length w) s" using Cons.prems by simp
      moreover have "length w \<le> length s" using True by (simp add: prefix_length_le)
      moreover have "w \<noteq> []" using True by simp
      ultimately show ?thesis by (cases w) auto
    next
      case False
      then show ?thesis using Cons by auto
    qed
  qed
  then show "((ws, rest), (ws, s)) \<in> measure (\<lambda>(ws, s). length s)" by simp
qed

declare stripLeading.simps [simp del]

definition trim :: "string \<Rightarrow> string" where
  "trim s = rev (stripLeading (map rev whiteSpace) (rev (stripLeading whiteSpace s)))"

text \<open>
  \<^verbatim>\<open>toUpperCase\<close> and \<^verbatim>\<open>toLowerCase\<close> on the letters of ASCII, the ones in the
  keys and role names they are applied to here.
\<close>

definition toUpperChar :: "char \<Rightarrow> char" where
  "toUpperChar c =
     (case map_of (zip ''abcdefghijklmnopqrstuvwxyz'' ''ABCDEFGHIJKLMNOPQRSTUVWXYZ'') c of
        Some u \<Rightarrow> u | None \<Rightarrow> c)"

definition toUpperCase :: "string \<Rightarrow> string" where
  "toUpperCase s = map toUpperChar s"

definition toLowerChar :: "char \<Rightarrow> char" where
  "toLowerChar c =
     (case map_of (zip ''ABCDEFGHIJKLMNOPQRSTUVWXYZ'' ''abcdefghijklmnopqrstuvwxyz'') c of
        Some l \<Rightarrow> l | None \<Rightarrow> c)"

definition toLowerCase :: "string \<Rightarrow> string" where
  "toLowerCase s = map toLowerChar s"

text \<open>\<^verbatim>\<open>Array.prototype.join\<close> on strings.\<close>

fun join :: "string \<Rightarrow> string list \<Rightarrow> string" where
  "join sep [] = []"
| "join sep [x] = x"
| "join sep (x # y # ys) = x @ sep @ join sep (y # ys)"

text \<open>
  \<^verbatim>\<open>Array.prototype.slice(start)\<close>: a negative \<open>start\<close> counts from the end, and
  both ends are clamped to the array.
\<close>

definition slice_from :: "int \<Rightarrow> 'a list \<Rightarrow> 'a list" where
  "slice_from start xs =
     (let len = int (length xs);
          k = (if start < 0 then max (len + start) 0 else min start len)
      in drop (nat k) xs)"

text \<open>
  \<^verbatim>\<open>Array.prototype.join\<close> on an array of primitive values: \<^verbatim>\<open>undefined\<close> and
  \<^verbatim>\<open>null\<close> elements are rendered as the empty string.
\<close>

fun joinStr :: "jsval \<Rightarrow> string" where
  "joinStr Undefined = []"
| "joinStr Null = []"
| "joinStr v = toStr v"

definition joinV :: "string \<Rightarrow> jsval list \<Rightarrow> string" where
  "joinV sep vs = join sep (map joinStr vs)"

text \<open>
  \<^verbatim>\<open>v.toLowerCase()\<close> on a primitive value: a method of strings only.
\<close>

fun toLowerCaseV :: "jsval \<Rightarrow> error + string" where
  "toLowerCaseV (Str s) = Inr (toLowerCase s)"
| "toLowerCaseV Undefined =
     Inl (TypeError ''Cannot read properties of undefined (reading 'toLowerCase')'')"
| "toLowerCaseV Null =
     Inl (TypeError ''Cannot read properties of null (reading 'toLowerCase')'')"
| "toLowerCaseV (Num n) = Inl (TypeError ''toLowerCase is not a function'')"

section \<open>chatbotController.js: the response generator\<close>

text \<open>
  A user document (\<^verbatim>\<open>req.user\<close>, and what \<^verbatim>\<open>findFaculty\<close> returns). The
  optional \<^verbatim>\<open>user\<close> parameter of the controller's methods is a \<open>user option\<close>,
  \<open>None\<close> for \<^verbatim>\<open>null\<close>.
\<close>

record user =
  u_id :: jsval
  u_name :: jsval
  u_role :: jsval
  u_email :: jsval
  u_designation :: jsval
  u_available :: bool

record message =
  m_role :: string
  m_content :: string

record chat_request =
  model :: string
  messages :: "message list"
  temperature :: rat
  max_tokens :: nat

text \<open>
  One \<^verbatim>\<open>axios.post(url, body, {timeout})\<close>. The endpoint is a parameter of the model:
  it answers a call with the \<^verbatim>\<open>content\<close> of each entry of \<^verbatim>\<open>response.data.choices\<close>,
  or rejects (transport error, timeout, non-2xx status) with an \<open>error\<close>.
\<close>

record http_call =
  url :: string
  body :: chat_request
  timeout :: "nat option"

type_synonym chat_endpoint = "http_call \<Rightarrow> error + string list"

record controller =
  LM_STUDIO_API_URL :: string
  CONVERSATION_HISTORY_LENGTH :: nat
  MODEL_NAME :: string

text \<open>The constructor reads two environment variables, each possibly unset.\<close>

definition constructor :: "jsval \<Rightarrow> jsval \<Rightarrow> controller" where
  "constructor env_LM_STUDIO_API_URL env_LLM_MODEL_NAME =
     \<lparr> LM_STUDIO_API_URL = toStr (orElse env_LM_STUDIO_API_URL (Str ''http://localhost:1234/v1'')),
       CONVERSATION_HISTORY_LENGTH = 5,
       MODEL_NAME = toStr (orElse env_LLM_MODEL_NAME (Str ''local-model'')) \<rparr>"

definition guidelines :: string where
  "guidelines =
     ''\<newline>\<newline>Respond in a helpful, concise manner. Use the provided context information to answer the user's query accurately. If the context doesn't contain enough information to answer the query, politely indicate that you don't have that specific information.\<newline>\<newline>'' @
     ''Important guidelines:\<newline>'' @
     ''1. Only provide information that's supported by the context data.\<newline>'' @
     ''2. Don't make up information that's not in the context.\<newline>'' @
     ''3. For dates and times, use the exact format provided in the context.\<newline>'' @
     ''4. Keep responses clear and structured for easy understanding.\<newline>'' @
     ''5. When listing multiple items, use numbered or bulleted lists for clarity.\<newline>'' @
     ''6. If context shows no relevant data was found, politely tell the user that information isn't available.\<newline>\<newline>''"

definition systemPrompt :: "string \<Rightarrow> user option \<Rightarrow> string" where
  "systemPrompt context usr =
     ''You are an intelligent assistant for a university exam management system.'' @
     (case usr of
        None \<Rightarrow> []
      | Some u \<Rightarrow>
          if u_role u = Str ''Admin'' then
            '' You are speaking with an administrator who manages the exam system.'' @
            '' You should provide comprehensive information about exams, rooms, faculty allocations, and student seating arrangements.''
          else if u_role u = Str ''Faculty'' then
            '' You are speaking with a faculty member named '' @ toStr (u_name u) @ ''.'' @
            '' You should focus on information relevant to their exam duties, assigned rooms, and student allocations for their supervision.'' @
            '' For faculty, prioritize information about their own allocations and duties.''
          else []) @
     guidelines @ context"

definition buildMessages ::
  "controller \<Rightarrow> string \<Rightarrow> string \<Rightarrow> message list \<Rightarrow> user option \<Rightarrow> message list" where
  "buildMessages this query context conversationHistory usr =
     (let messages = [\<lparr> m_role = ''system'', m_content = systemPrompt context usr \<rparr>];
          limitedHistory =
            slice_from (- int (CONVERSATION_HISTORY_LENGTH this)) conversationHistory;
          messages = messages @ limitedHistory;
          messages = messages @ [\<lparr> m_role = ''user'', m_content = query \<rparr>]
      in messages)"

definition generationApology :: string where
  "generationApology =
     ''I'm sorry, I encountered an error while generating a response. Please try again.''"

text \<open>
  \<open>chatCall\<close> is the request \<^verbatim>\<open>axios.post\<close> is given. \<open>generateResponse\<close> returns
  its reply together with the calls it made to the chat-completion endpoint. Everything
  inside its \<^verbatim>\<open>try\<close> that throws (the rejected call, an empty \<^verbatim>\<open>choices\<close>) ends in
  the \<^verbatim>\<open>catch\<close>, which returns the fixed apology.
\<close>

definition chatCall ::
  "controller \<Rightarrow> string \<Rightarrow> string \<Rightarrow> message list \<Rightarrow> user option \<Rightarrow> http_call" where
  "chatCall this query context conversationHistory usr =
     \<lparr> url = LM_STUDIO_API_URL this @ ''/chat/completions'',
       body = \<lparr> model = MODEL_NAME this,
                messages = buildMessages this query context conversationHistory usr,
                temperature = 7 / 10,
                max_tokens = 800 \<rparr>,
       timeout = Some 30000 \<rparr>"

definition generateResponse ::
  "controller \<Rightarrow> chat_endpoint \<Rightarrow> string \<Rightarrow> string \<Rightarrow> message list \<Rightarrow> user option
     \<Rightarrow> string \<times> http_call list" where
  "generateResponse this post query context conversationHistory usr =
     (let call = chatCall this query context conversationHistory usr
      in (case post call of
            Inl err \<Rightarrow> generationApology
          | Inr choices \<Rightarrow>
              (case choices of
                 [] \<Rightarrow> generationApology
               | content # _ \<Rightarrow> trim content),
          [call]))"

section \<open>chatbotController.js: the records the database service returns\<close>

text \<open>
  A foreign-key field arrives either as a raw id or as the populated document; an absent
  (\<^verbatim>\<open>null\<close>, \<^verbatim>\<open>undefined\<close>) one is \<open>None\<close> of a \<open>ref option\<close>.
  \<open>present\<close> is the truthiness the formatter tests before it renders the field.
\<close>

datatype 'a ref = Raw string | Populated 'a

fun present :: "'a ref option \<Rightarrow> bool" where
  "present None = False"
| "present (Some (Raw s)) = (s \<noteq> [])"
| "present (Some (Populated x)) = True"

text \<open>The populated documents, with the fields the controller reads.\<close>

record exam_ref =
  xr_name :: jsval

record subject_ref =
  sr_name :: jsval
  sr_subjectCode :: jsval

record room_ref =
  rr_id :: string
  rr_building :: jsval
  rr_roomNumber :: jsval

record faculty_ref =
  fr_name :: jsval

record semester_entry =
  se_semester :: jsval
  se_totalStudents :: jsval

record exam =
  e_name :: jsval
  e_year :: jsval
  e_semesters :: "semester_entry list option"
  e_subjects :: "subject_ref ref list option"

record subject =
  s_name :: jsval
  s_subjectCode :: jsval
  s_semester :: jsval
  s_date :: jsval
  s_startTime :: jsval
  s_endTime :: jsval
  s_exam :: "exam_ref ref option"

record room =
  r_building :: jsval
  r_roomNumber :: jsval
  r_floor :: jsval
  r_capacity :: jsval

record allocation =
  a_facultyName :: jsval
  a_facultyId :: "faculty_ref ref option"
  a_examId :: "exam_ref ref option"
  a_subjectId :: "subject_ref ref option"
  a_roomId :: "room_ref ref option"
  a_date :: jsval
  a_startTime :: jsval
  a_endTime :: jsval

record student_allocation =
  t_roomNumber :: jsval
  t_roomId :: "room_ref ref option"
  t_examId :: "exam_ref ref option"
  t_subjectId :: "subject_ref ref option"
  t_subjectIds :: "subject_ref ref list option"
  t_date :: jsval
  t_students :: "jsval list option"

record stats =
  totalExams :: jsval
  totalRooms :: jsval
  totalFaculty :: jsval
  totalSubjects :: jsval
  currentAllocations :: jsval
  upcomingExams :: jsval

record faculty_stats =
  totalAllocations :: nat
  upcomingAllocations :: nat
  pastAllocations :: nat

record search_results =
  found_exams :: "exam list option"
  found_subjects :: "subject list option"
  found_rooms :: "room list option"
  found_faculty :: "user list option"

text \<open>
  The value stored under one key of \<^verbatim>\<open>contextData.data\<close>: an array of records of one
  kind, or one of the three objects. \<^verbatim>\<open>contextData.data\<close> itself is the list of its
  keys with their values, in insertion order (the order \<^verbatim>\<open>Object.keys\<close> gives).
\<close>

datatype dataset =
    ExamList "exam list"
  | SubjectList "subject list"
  | RoomList "room list"
  | AllocationList "allocation list"
  | StudentAllocationList "student_allocation list"
  | FacultyList "user list"
  | StatsObject stats
  | FacultyStatsObject faculty_stats
  | SearchResultsObject search_results

record context_data =
  intent :: jsval
  data :: "(string \<times> dataset) list"
  userRole :: jsval
  userName :: jsval

text \<open>\<^verbatim>\<open>contextData.data[key] = value\<close>.\<close>

fun set_key :: "string \<Rightarrow> dataset \<Rightarrow> (string \<times> dataset) list \<Rightarrow> (string \<times> dataset) list" where
  "set_key k v [] = [(k, v)]"
| "set_key k v ((k', v') # rest) =
     (if k' = k then (k, v) # rest else (k', v') # set_key k v rest)"

section \<open>chatbotController.js: formatContextData\<close>

text \<open>
  The arrays the branches of the formatter iterate. The router stores under each key a
  value of the kind its branch reads, so the other cases do not arise from it.
\<close>

fun examsOf :: "dataset \<Rightarrow> exam list" where
  "examsOf (ExamList xs) = xs" | "examsOf _ = []"

fun subjectsOf :: "dataset \<Rightarrow> subject list" where
  "subjectsOf (SubjectList xs) = xs" | "subjectsOf _ = []"

fun roomsOf :: "dataset \<Rightarrow> room list" where
  "roomsOf (RoomList xs) = xs" | "roomsOf _ = []"

fun allocationsOf :: "dataset \<Rightarrow> allocation list" where
  "allocationsOf (AllocationList xs) = xs" | "allocationsOf _ = []"

fun studentAllocationsOf :: "dataset \<Rightarrow> student_allocation list" where
  "studentAllocationsOf (StudentAllocationList xs) = xs" | "studentAllocationsOf _ = []"

fun facultyOf :: "dataset \<Rightarrow> user list" where
  "facultyOf (FacultyList xs) = xs" | "facultyOf _ = []"

text \<open>
  The test that skips a dataset:
  \<^verbatim>\<open>!data || (Array.isArray(data) && data.length === 0) ||
  (typeof data === 'object' && Object.keys(data).length === 0)\<close>.
  The three objects always carry their keys.
\<close>

fun isEmptyData :: "dataset \<Rightarrow> bool" where
  "isEmptyData (ExamList xs) = (length xs = 0)"
| "isEmptyData (SubjectList xs) = (length xs = 0)"
| "isEmptyData (RoomList xs) = (length xs = 0)"
| "isEmptyData (AllocationList xs) = (length xs = 0)"
| "isEmptyData (StudentAllocationList xs) = (length xs = 0)"
| "isEmptyData (FacultyList xs) = (length xs = 0)"
| "isEmptyData (StatsObject st) = False"
| "isEmptyData (FacultyStatsObject fs) = False"
| "isEmptyData (SearchResultsObject sr) = False"

text \<open>\<^verbatim>\<open>data.forEach((x, index) => ...)\<close>, each callback appending its text.\<close>

definition forEach :: "(nat \<Rightarrow> 'a \<Rightarrow> string) \<Rightarrow> 'a list \<Rightarrow> string" where
  "forEach f xs = concat (map (\<lambda>(index, x). f index x) (enumerate 0 xs))"

text \<open>\<^verbatim>\<open>typeof r === 'object' ? r.name : r\<close> for a present reference.\<close>

fun refLabel :: "('a \<Rightarrow> jsval) \<Rightarrow> 'a ref \<Rightarrow> jsval" where
  "refLabel nm (Raw s) = Str s"
| "refLabel nm (Populated x) = nm x"

text \<open>
  \<^verbatim>\<open>s.name || s\<close> inside \<^verbatim>\<open>join\<close>: a populated subject without a name is
  rendered as the object itself.
\<close>

fun sampleSubject :: "subject_ref ref \<Rightarrow> string" where
  "sampleSubject (Raw s) = s"
| "sampleSubject (Populated x) =
     (if truthy (sr_name x) then toStr (sr_name x) else ''[object Object]'')"

definition formatExam :: "nat \<Rightarrow> exam \<Rightarrow> string" where
  "formatExam index exam =
     ''Exam '' @ showNat (index + 1) @ '': '' @ toStr (e_name exam)
       @ '' ('' @ toStr (e_year exam) @ '')\<newline>'' @
     (case e_semesters exam of
        None \<Rightarrow> []
      | Some semesters \<Rightarrow>
          if length semesters > 0
          then ''  Semesters: '' @ joinV '', '' (map se_semester semesters) @ ''\<newline>''
          else []) @
     (case e_subjects exam of
        None \<Rightarrow> []
      | Some subjects \<Rightarrow>
          if length subjects > 0
          then ''  Subjects: '' @ showNat (length subjects) @ '' subjects\<newline>'' @
               (let sampleSubjects = take 3 subjects
                in ''  Sample Subjects: '' @ join '', '' (map sampleSubject sampleSubjects)
                   @ (if length subjects > 3 then ''...'' else []) @ ''\<newline>'')
          else []) @
     ''\<newline>''"

definition formatSubject :: "(jsval \<Rightarrow> string) \<Rightarrow> nat \<Rightarrow> subject \<Rightarrow> string" where
  "formatSubject toLocaleDateString index subject =
     ''Subject '' @ showNat (index + 1) @ '': '' @ toStr (s_name subject)
       @ '' ('' @ toStr (s_subjectCode subject) @ '')\<newline>'' @
     ''  Semester: '' @ toStr (s_semester subject) @ ''\<newline>'' @
     (if truthy (s_date subject)
      then ''  Date: '' @ toLocaleDateString (s_date subject) @ ''\<newline>'' @
           ''  Time: '' @ toStr (orElse (s_startTime subject) (Str ''N/A'')) @ '' - ''
             @ toStr (orElse (s_endTime subject) (Str ''N/A'')) @ ''\<newline>''
      else []) @
     (if present (s_exam subject)
      then ''  Exam: '' @ toStr (refLabel xr_name (the (s_exam subject))) @ ''\<newline>''
      else []) @
     ''\<newline>''"

definition formatRoom :: "nat \<Rightarrow> room \<Rightarrow> string" where
  "formatRoom index room =
     ''Room '' @ showNat (index + 1) @ '': '' @ toStr (r_building room) @ '' - ''
       @ toStr (r_roomNumber room) @ ''\<newline>'' @
     ''  Floor: '' @ toStr (r_floor room) @ '', Capacity: '' @ toStr (r_capacity room)
       @ ''\<newline>'' @
     ''\<newline>''"

definition formatAllocation :: "(jsval \<Rightarrow> string) \<Rightarrow> nat \<Rightarrow> allocation \<Rightarrow> string" where
  "formatAllocation toLocaleDateString index allocation =
     ''Allocation '' @ showNat (index + 1) @ '':\<newline>'' @
     (let facultyName =
            (if truthy (a_facultyName allocation) then a_facultyName allocation
             else (case a_facultyId allocation of
                     Some (Populated f) \<Rightarrow> fr_name f
                   | _ \<Rightarrow> Str ''Unknown''))
      in ''  Faculty: '' @ toStr facultyName @ ''\<newline>'') @
     (if present (a_examId allocation)
      then (let examName = refLabel xr_name (the (a_examId allocation))
            in ''  Exam: '' @ toStr examName @ ''\<newline>'')
      else []) @
     (if present (a_subjectId allocation)
      then (let subjectName = refLabel sr_name (the (a_subjectId allocation));
                subjectCode =
                  (case the (a_subjectId allocation) of
                     Populated s \<Rightarrow>
                       if truthy (sr_subjectCode s) then sr_subjectCode s else Str []
                   | Raw i \<Rightarrow> Str [])
            in ''  Subject: '' @ toStr subjectName
                 @ (if truthy subjectCode then '' ('' @ toStr subjectCode @ '')'' else [])
                 @ ''\<newline>'')
      else []) @
     (if present (a_roomId allocation)
      then (let building =
                  (case the (a_roomId allocation) of
                     Populated r \<Rightarrow> rr_building r | Raw i \<Rightarrow> Str []);
                roomNumber = refLabel rr_roomNumber (the (a_roomId allocation))
            in ''  Room: '' @ (if truthy building then toStr building @ '' - '' else [])
                 @ toStr roomNumber @ ''\<newline>'')
      else []) @
     (if truthy (a_date allocation)
      then ''  Date: '' @ toLocaleDateString (a_date allocation) @ ''\<newline>'' @
           ''  Time: '' @ toStr (orElse (a_startTime allocation) (Str ''N/A'')) @ '' - ''
             @ toStr (orElse (a_endTime allocation) (Str ''N/A'')) @ ''\<newline>''
      else []) @
     ''\<newline>''"

text \<open>
  \<^verbatim>\<open>allocation.roomNumber || (allocation.roomId && allocation.roomId.roomNumber)
  || 'Unknown'\<close>: a raw id has no \<^verbatim>\<open>roomNumber\<close>.
\<close>

definition studentRoomLabel :: "student_allocation \<Rightarrow> jsval" where
  "studentRoomLabel allocation =
     orElse (orElse (t_roomNumber allocation)
               (case t_roomId allocation of
                  Some (Populated r) \<Rightarrow> rr_roomNumber r
                | _ \<Rightarrow> Undefined))
            (Str ''Unknown'')"

definition formatStudentAllocation ::
  "(jsval \<Rightarrow> string) \<Rightarrow> nat \<Rightarrow> student_allocation \<Rightarrow> string" where
  "formatStudentAllocation toLocaleDateString index allocation =
     ''Student Allocation '' @ showNat (index + 1) @ '':\<newline>'' @
     ''  Room: '' @ toStr (studentRoomLabel allocation) @ ''\<newline>'' @
     (if present (t_examId allocation)
      then (let examName = refLabel xr_name (the (t_examId allocation))
            in ''  Exam: '' @ toStr examName @ ''\<newline>'')
      else []) @
     (if present (t_subjectId allocation)
      then (let subjectName = refLabel sr_name (the (t_subjectId allocation))
            in ''  Subject: '' @ toStr subjectName @ ''\<newline>'')
      else (case t_subjectIds allocation of
              None \<Rightarrow> []
            | Some subjectIds \<Rightarrow>
                if length subjectIds > 0
                then (let subjectNames = map (refLabel sr_name) subjectIds
                      in ''  Subjects: '' @ joinV '', '' subjectNames @ ''\<newline>'')
                else [])) @
     (if truthy (t_date allocation)
      then ''  Date: '' @ toLocaleDateString (t_date allocation) @ ''\<newline>''
      else []) @
     ''  Students Count: ''
       @ showNat (case t_students allocation of None \<Rightarrow> 0 | Some students \<Rightarrow> length students)
       @ ''\<newline>'' @
     (case t_students allocation of
        None \<Rightarrow> []
      | Some students \<Rightarrow>
          if length students > 0
          then (let sampleStudents = take 5 students
                in ''  Sample Students: '' @ joinV '', '' sampleStudents
                   @ (if length students > 5 then ''...'' else []) @ ''\<newline>'')
          else []) @
     ''\<newline>''"

definition formatFaculty :: "nat \<Rightarrow> user \<Rightarrow> string" where
  "formatFaculty index faculty =
     ''Faculty '' @ showNat (index + 1) @ '': '' @ toStr (u_name faculty) @ ''\<newline>'' @
     ''  Email: '' @ toStr (orElse (u_email faculty) (Str ''Not provided'')) @ ''\<newline>'' @
     ''  Designation: '' @ toStr (orElse (u_designation faculty) (Str ''Not specified''))
       @ ''\<newline>'' @
     ''  Available: '' @ (if u_available faculty then ''Yes'' else ''No'') @ ''\<newline>'' @
     ''\<newline>''"

definition formatStats :: "stats \<Rightarrow> string" where
  "formatStats st =
     ''  Total Exams: '' @ toStr (totalExams st) @ ''\<newline>'' @
     ''  Total Rooms: '' @ toStr (totalRooms st) @ ''\<newline>'' @
     ''  Total Faculty: '' @ toStr (totalFaculty st) @ ''\<newline>'' @
     ''  Total Subjects: '' @ toStr (totalSubjects st) @ ''\<newline>'' @
     ''  Current Allocations: '' @ toStr (currentAllocations st) @ ''\<newline>'' @
     ''  Upcoming Exams: '' @ toStr (upcomingExams st) @ ''\<newline>'' @
     ''\<newline>''"

definition formatFacultyStats :: "faculty_stats \<Rightarrow> string" where
  "formatFacultyStats fs =
     ''  Total Allocations: '' @ showNat (totalAllocations fs) @ ''\<newline>'' @
     ''  Upcoming Allocations: '' @ showNat (upcomingAllocations fs) @ ''\<newline>'' @
     ''  Past Allocations: '' @ showNat (pastAllocations fs) @ ''\<newline>'' @
     ''\<newline>''"

text \<open>
  One group of the general search results:
  \<^verbatim>\<open>if (xs && xs.length > 0) { header with the count; xs.slice(0, 3).forEach(line) }\<close>.
\<close>

definition formatFound :: "string \<Rightarrow> ('a \<Rightarrow> string) \<Rightarrow> 'a list option \<Rightarrow> string" where
  "formatFound title line found =
     (case found of
        None \<Rightarrow> []
      | Some xs \<Rightarrow>
          if length xs > 0
          then ''  '' @ title @ '' found: '' @ showNat (length xs) @ ''\<newline>'' @
               concat (map (\<lambda>x. ''    - '' @ line x @ ''\<newline>'') (take 3 xs))
          else [])"

definition formatSearchResults :: "search_results \<Rightarrow> string" where
  "formatSearchResults sr =
     formatFound ''Exams''
       (\<lambda>exam. toStr (e_name exam) @ '' ('' @ toStr (e_year exam) @ '')'') (found_exams sr) @
     formatFound ''Subjects''
       (\<lambda>subject. toStr (s_name subject) @ '' ('' @ toStr (s_subjectCode subject) @ '')'')
       (found_subjects sr) @
     formatFound ''Rooms''
       (\<lambda>room. toStr (r_building room) @ '' - '' @ toStr (r_roomNumber room)) (found_rooms sr) @
     formatFound ''Faculty''
       (\<lambda>faculty. toStr (u_name faculty) @ '' ('' @ toStr (u_email faculty) @ '')'')
       (found_faculty sr) @
     ''\<newline>''"

text \<open>
  The body of the \<^verbatim>\<open>Object.keys(contextData.data).forEach\<close> callback for one key:
  nothing for an empty dataset, otherwise the upper-cased key as the section header and
  then the first branch of the \<^verbatim>\<open>if / else if\<close> chain whose key matches. The chain has
  no final \<^verbatim>\<open>else\<close>.
\<close>

definition formatSection :: "(jsval \<Rightarrow> string) \<Rightarrow> string \<times> dataset \<Rightarrow> string" where
  "formatSection toLocaleDateString entry =
     (let dataType = fst entry; dat = snd entry
      in if isEmptyData dat then []
         else toUpperCase dataType @ '':\<newline>'' @
           (if dataType = ''exams'' then forEach formatExam (examsOf dat)
            else if dataType = ''subjects''
              then forEach (formatSubject toLocaleDateString) (subjectsOf dat)
            else if dataType = ''rooms'' then forEach formatRoom (roomsOf dat)
            else if dataType = ''allocations'' \<or> dataType = ''facultyExams''
                    \<or> dataType = ''facultyRooms''
              then forEach (formatAllocation toLocaleDateString) (allocationsOf dat)
            else if dataType = ''studentAllocations'' \<or> dataType = ''roomAllocations''
                    \<or> dataType = ''facultyRoomStudents''
              then forEach (formatStudentAllocation toLocaleDateString) (studentAllocationsOf dat)
            else if dataType = ''faculty'' then forEach formatFaculty (facultyOf dat)
            else if dataType = ''stats''
              then (case dat of StatsObject st \<Rightarrow> formatStats st | _ \<Rightarrow> [])
            else if dataType = ''facultyStats''
              then (case dat of FacultyStatsObject fs \<Rightarrow> formatFacultyStats fs | _ \<Rightarrow> [])
            else if dataType = ''searchResults''
              then (case dat of SearchResultsObject sr \<Rightarrow> formatSearchResults sr | _ \<Rightarrow> [])
            else []))"

text \<open>
  \<open>toLocaleDateString\<close> stands for \<^verbatim>\<open>new Date(d).toLocaleDateString()\<close>, which
  depends on the host's locale.
\<close>

definition formatContextData :: "(jsval \<Rightarrow> string) \<Rightarrow> context_data \<Rightarrow> string" where
  "formatContextData toLocaleDateString contextData =
     ''CONTEXT INFORMATION FOR QUERY:\<newline>'' @
     ''Intent: '' @ toStr (intent contextData) @ ''\<newline>'' @
     (if truthy (userRole contextData)
      then ''User Role: '' @ toStr (userRole contextData) @ ''\<newline>'' @
           (if truthy (userName contextData)
            then ''User Name: '' @ toStr (userName contextData) @ ''\<newline>''
            else [])
      else []) @
     ''\<newline>'' @
     concat (map (formatSection toLocaleDateString) (data contextData))"

section \<open>chatbotController.js: fetchRelevantData\<close>

text \<open>
  The query analyser's result. Every field may be absent (\<open>Undefined\<close>).
\<close>

record analysis_result =
  q_intent :: jsval
  q_time_period :: jsval
  q_exam_name :: jsval
  q_exam_year :: jsval
  q_semester :: jsval
  q_subject_name :: jsval
  q_subject_code :: jsval
  q_date :: jsval
  q_faculty_name :: jsval
  q_faculty_id :: jsval
  q_room_id :: jsval
  q_building :: jsval
  q_room_number :: jsval
  q_floor :: jsval
  q_student :: jsval
  q_email :: jsval
  q_designation :: jsval

text \<open>
  \<^verbatim>\<open>timeParams\<close>: at most one of the three flags is set; an unset flag is an absent
  key of the filter it is spread into.
\<close>

record time_params =
  past :: bool
  future :: bool
  present_time :: bool

definition noTime :: time_params where
  "noTime = \<lparr> past = False, future = False, present_time = False \<rparr>"

definition timeParamsOf :: "analysis_result \<Rightarrow> time_params" where
  "timeParamsOf analysisResult =
     (if q_time_period analysisResult = Str ''past'' then noTime \<lparr> past := True \<rparr>
      else if q_time_period analysisResult = Str ''future'' then noTime \<lparr> future := True \<rparr>
      else if q_time_period analysisResult = Str ''present'' then noTime \<lparr> present_time := True \<rparr>
      else noTime)"

text \<open>The filter objects passed to the database service; an absent key is \<open>Undefined\<close>.\<close>

record exam_filter =
  xf_name :: jsval
  xf_year :: jsval
  xf_semester :: jsval

record subject_filter =
  sf_name :: jsval
  sf_subjectCode :: jsval
  sf_semester :: jsval
  sf_date :: jsval

record room_filter =
  rf_building :: jsval
  rf_roomNumber :: jsval
  rf_floor :: jsval

record faculty_filter =
  ff_name :: jsval
  ff_email :: jsval
  ff_designation :: jsval

record allocation_filter =
  af_facultyName :: jsval
  af_facultyId :: jsval
  af_roomId :: jsval
  af_roomNumber :: jsval
  af_date :: jsval
  af_time :: time_params

record student_filter =
  tf_roomNumber :: jsval
  tf_semester :: jsval
  tf_student :: jsval
  tf_date :: jsval
  tf_roomIds :: "room_ref ref list option"
  tf_roomNumbers :: "jsval list option"
  tf_time :: time_params

definition allocationFilter :: allocation_filter where
  "allocationFilter =
     \<lparr> af_facultyName = Undefined, af_facultyId = Undefined, af_roomId = Undefined,
       af_roomNumber = Undefined, af_date = Undefined, af_time = noTime \<rparr>"

definition studentFilter :: student_filter where
  "studentFilter =
     \<lparr> tf_roomNumber = Undefined, tf_semester = Undefined, tf_student = Undefined,
       tf_date = Undefined, tf_roomIds = None, tf_roomNumbers = None, tf_time = noTime \<rparr>"

text \<open>
  \<^verbatim>\<open>chatbotDatabaseService\<close> is not among the sources: its functions are parameters
  of the model. Each answers a filter with an array of records or throws.
\<close>

record db_service =
  findExams :: "exam_filter \<Rightarrow> error + exam list"
  findSubjects :: "subject_filter \<Rightarrow> error + subject list"
  findRooms :: "room_filter \<Rightarrow> error + room list"
  findFaculty :: "faculty_filter \<Rightarrow> error + user list"
  findFacultyAllocations :: "allocation_filter \<Rightarrow> error + allocation list"
  findStudentAllocations :: "student_filter \<Rightarrow> error + student_allocation list"
  getSystemStats :: "error + stats"

text \<open>
  The body of the \<^verbatim>\<open>try\<close> mutates \<^verbatim>\<open>contextData.data\<close> step by step, and the
  \<^verbatim>\<open>catch\<close> returns \<^verbatim>\<open>contextData\<close> as it is when a step throws. A run of such steps
  is a \<open>progress\<close>: the data so far, and the exception that stopped it if one did.
\<close>

type_synonym progress = "(string \<times> dataset) list \<times> error option"

text \<open>\<^verbatim>\<open>contextData.data[key] = await lookup\<close>.\<close>

definition store :: "string \<Rightarrow> error + dataset \<Rightarrow> (string \<times> dataset) list \<Rightarrow> progress" where
  "store key looked d =
     (case looked of Inl err \<Rightarrow> (d, Some err) | Inr v \<Rightarrow> (set_key key v d, None))"

text \<open>The next statement, run only when nothing was thrown before it.\<close>

definition andThen :: "progress \<Rightarrow> ((string \<times> dataset) list \<Rightarrow> progress) \<Rightarrow> progress" where
  "andThen p f = (case p of (d, None) \<Rightarrow> f d | (d, Some err) \<Rightarrow> (d, Some err))"

text \<open>\<^verbatim>\<open>if (c) { statement }\<close>.\<close>

definition whenever :: "bool \<Rightarrow> ((string \<times> dataset) list \<Rightarrow> progress)
    \<Rightarrow> (string \<times> dataset) list \<Rightarrow> progress" where
  "whenever c f d = (if c then f d else (d, None))"

definition mapResult :: "('a \<Rightarrow> 'b) \<Rightarrow> error + 'a \<Rightarrow> error + 'b" where
  "mapResult f r = (case r of Inl err \<Rightarrow> Inl err | Inr x \<Rightarrow> Inr (f x))"

text \<open>
  \<^verbatim>\<open>user && user.role === 'Faculty' ? user._id : null\<close> and
  \<^verbatim>\<open>user && user.role === 'Faculty' ? user.name : analysisResult.faculty_name\<close>.
\<close>

definition facultyIdOf :: "user option \<Rightarrow> jsval" where
  "facultyIdOf usr =
     (case usr of
        Some u \<Rightarrow> if u_role u = Str ''Faculty'' then u_id u else Null
      | None \<Rightarrow> Null)"

definition facultyNameOf :: "analysis_result \<Rightarrow> user option \<Rightarrow> jsval" where
  "facultyNameOf analysisResult usr =
     (case usr of
        Some u \<Rightarrow> if u_role u = Str ''Faculty'' then u_name u else q_faculty_name analysisResult
      | None \<Rightarrow> q_faculty_name analysisResult)"

text \<open>
  The room ids and room numbers the two-hop student lookup extracts from a faculty
  member's allocations:
  \<^verbatim>\<open>alloc.roomId ? alloc.roomId._id || alloc.roomId : null\<close> and
  \<^verbatim>\<open>alloc.roomId ? alloc.roomId.roomNumber : null\<close>, each followed by
  \<^verbatim>\<open>.filter(Boolean)\<close>.
\<close>

fun roomIdOf :: "allocation \<Rightarrow> room_ref ref option" where
  "roomIdOf alloc =
     (case a_roomId alloc of
        None \<Rightarrow> None
      | Some (Raw i) \<Rightarrow> (if i \<noteq> [] then Some (Raw i) else None)
      | Some (Populated r) \<Rightarrow>
          (if rr_id r \<noteq> [] then Some (Raw (rr_id r)) else Some (Populated r)))"

fun roomNumberOf :: "allocation \<Rightarrow> jsval" where
  "roomNumberOf alloc =
     (case a_roomId alloc of
        Some (Populated r) \<Rightarrow> rr_roomNumber r
      | Some (Raw i) \<Rightarrow> (if i \<noteq> [] then Undefined else Null)
      | None \<Rightarrow> Null)"

text \<open>
  The test of the \<^verbatim>\<open>faculty_info\<close> branch:
  \<^verbatim>\<open>facultyId && (!analysisResult.faculty_name || (analysisResult.faculty_name &&
  facultyName.toLowerCase().includes(analysisResult.faculty_name.toLowerCase())))\<close>.
  \<^verbatim>\<open>toLowerCase\<close> throws on a name that is not a string. The test can only hold for
  a present user, whose document the branch then stores as the one faculty record.
\<close>

definition asksAboutSelf :: "analysis_result \<Rightarrow> user option \<Rightarrow> error + bool" where
  "asksAboutSelf analysisResult usr =
     (if \<not> truthy (facultyIdOf usr) then Inr False
      else if \<not> truthy (q_faculty_name analysisResult) then Inr True
      else (case toLowerCaseV (facultyNameOf analysisResult usr) of
              Inl err \<Rightarrow> Inl err
            | Inr own \<Rightarrow>
                (case toLowerCaseV (q_faculty_name analysisResult) of
                   Inl err \<Rightarrow> Inl err
                 | Inr asked \<Rightarrow> Inr (sublist asked own))))"

text \<open>The three lookups of the personal statistics, awaited in this order.\<close>

definition personalStats :: "db_service \<Rightarrow> jsval \<Rightarrow> error + dataset" where
  "personalStats db facultyId =
     (case findFacultyAllocations db (allocationFilter \<lparr> af_facultyId := facultyId \<rparr>) of
        Inl err \<Rightarrow> Inl err
      | Inr totalFound \<Rightarrow>
     (case findFacultyAllocations db
             (allocationFilter \<lparr> af_facultyId := facultyId, af_time := noTime \<lparr> future := True \<rparr> \<rparr>) of
        Inl err \<Rightarrow> Inl err
      | Inr upcomingFound \<Rightarrow>
     (case findFacultyAllocations db
             (allocationFilter \<lparr> af_facultyId := facultyId, af_time := noTime \<lparr> past := True \<rparr> \<rparr>) of
        Inl err \<Rightarrow> Inl err
      | Inr pastFound \<Rightarrow>
          Inr (FacultyStatsObject
                 \<lparr> totalAllocations = length totalFound,
                   upcomingAllocations = length upcomingFound,
                   pastAllocations = length pastFound \<rparr>))))"

text \<open>
  The \<^verbatim>\<open>switch (contextData.intent)\<close>, started on the empty \<^verbatim>\<open>data\<close>. In the
  \<^verbatim>\<open>default\<close> branch the argument \<^verbatim>\<open>query\<close> of \<^verbatim>\<open>dbService.searchAll(query)\<close> is
  neither a parameter nor a variable of \<^verbatim>\<open>fetchRelevantData\<close> or of the module, so
  evaluating it throws before the call is made.
\<close>

definition fetchSwitch :: "db_service \<Rightarrow> analysis_result \<Rightarrow> user option \<Rightarrow> jsval \<Rightarrow> progress" where
  "fetchSwitch db analysisResult usr intent' =
     (let timeParams = timeParamsOf analysisResult;
          facultyId = facultyIdOf usr;
          facultyName = facultyNameOf analysisResult usr;
          ownAllocations =
            (\<lambda>key. store key (mapResult AllocationList
               (findFacultyAllocations db
                  (allocationFilter \<lparr> af_facultyId := facultyId, af_time := timeParams \<rparr>))))
      in
      if intent' = Str ''exam_info'' then
        andThen (andThen
          (store ''exams'' (mapResult ExamList
             (findExams db \<lparr> xf_name = q_exam_name analysisResult,
                              xf_year = q_exam_year analysisResult,
                              xf_semester = q_semester analysisResult \<rparr>)) [])
          (whenever (truthy (q_subject_name analysisResult) \<or> truthy (q_subject_code analysisResult))
             (store ''subjects'' (mapResult SubjectList
                (findSubjects db \<lparr> sf_name = q_subject_name analysisResult,
                                    sf_subjectCode = q_subject_code analysisResult,
                                    sf_semester = q_semester analysisResult,
                                    sf_date = q_date analysisResult \<rparr>)))))
          (whenever (truthy facultyId) (ownAllocations ''facultyExams''))
      else if intent' = Str ''faculty_allocation'' then
        andThen
          (store ''allocations'' (mapResult AllocationList
             (findFacultyAllocations db
                \<lparr> af_facultyName = facultyName,
                  af_facultyId = orElse facultyId (q_faculty_id analysisResult),
                  af_roomId = q_room_id analysisResult,
                  af_roomNumber = Undefined,
                  af_date = q_date analysisResult,
                  af_time = timeParams \<rparr>)) [])
          (whenever (truthy facultyName)
             (store ''faculty'' (mapResult FacultyList
                (findFaculty db \<lparr> ff_name = facultyName, ff_email = Undefined,
                                   ff_designation = Undefined \<rparr>))))
      else if intent' = Str ''room_info'' then
        andThen (andThen
          (store ''rooms'' (mapResult RoomList
             (findRooms db \<lparr> rf_building = q_building analysisResult,
                              rf_roomNumber = q_room_number analysisResult,
                              rf_floor = q_floor analysisResult \<rparr>)) [])
          (whenever (truthy (q_room_number analysisResult))
             (\<lambda>d. andThen
                (store ''roomAllocations'' (mapResult StudentAllocationList
                   (findStudentAllocations db
                      (studentFilter \<lparr> tf_roomNumber := q_room_number analysisResult,
                                       tf_date := q_date analysisResult,
                                       tf_time := timeParams \<rparr>))) d)
                (store ''facultyRoomAllocations'' (mapResult AllocationList
                   (findFacultyAllocations db
                      (allocationFilter \<lparr> af_roomNumber := q_room_number analysisResult,
                                          af_date := q_date analysisResult,
                                          af_time := timeParams \<rparr>)))))))
          (whenever (truthy facultyId) (ownAllocations ''facultyRooms''))
      else if intent' = Str ''student_allocation'' then
        andThen
          (store ''studentAllocations'' (mapResult StudentAllocationList
             (findStudentAllocations db
                (studentFilter \<lparr> tf_roomNumber := q_room_number analysisResult,
                                 tf_semester := q_semester analysisResult,
                                 tf_student := q_student analysisResult,
                                 tf_date := q_date analysisResult,
                                 tf_time := timeParams \<rparr>))) [])
          (whenever (truthy facultyId \<and> \<not> truthy (q_room_number analysisResult))
             (\<lambda>d. case findFacultyAllocations db
                          (allocationFilter \<lparr> af_facultyId := facultyId,
                                              af_date := q_date analysisResult,
                                              af_time := timeParams \<rparr>) of
                     Inl err \<Rightarrow> (d, Some err)
                   | Inr facultyAllocations \<Rightarrow>
                       whenever (length facultyAllocations > 0)
                         (let roomIds = map the (filter (\<lambda>r. r \<noteq> None) (map roomIdOf facultyAllocations));
                              roomNumbers = filter truthy (map roomNumberOf facultyAllocations)
                          in store ''facultyRoomStudents'' (mapResult StudentAllocationList
                               (findStudentAllocations db
                                  (studentFilter \<lparr> tf_roomIds := Some roomIds,
                                                   tf_roomNumbers := Some roomNumbers,
                                                   tf_date := q_date analysisResult,
                                                   tf_time := timeParams \<rparr>))))
                         d))
      else if intent' = Str ''faculty_info'' then
        (case asksAboutSelf analysisResult usr of
           Inl err \<Rightarrow> ([], Some err)
         | Inr True \<Rightarrow>
             store ''faculty''
               (Inr (FacultyList (case usr of Some u \<Rightarrow> [u] | None \<Rightarrow> []))) []
         | Inr False \<Rightarrow>
             store ''faculty'' (mapResult FacultyList
               (findFaculty db \<lparr> ff_name = q_faculty_name analysisResult,
                                  ff_email = q_email analysisResult,
                                  ff_designation = q_designation analysisResult \<rparr>)) [])
      else if intent' = Str ''system_stats'' then
        (if (case usr of None \<Rightarrow> True | Some u \<Rightarrow> u_role u = Str ''Admin'')
         then store ''stats'' (mapResult StatsObject (getSystemStats db)) []
         else store ''facultyStats'' (personalStats db facultyId) [])
      else ([], Some (ReferenceError ''query is not defined'')))"

text \<open>
  \<open>fetchRelevantData\<close> itself: the context with whatever the switch stored before it
  finished or threw. The exception is only logged.
\<close>

definition fetchRelevantData :: "db_service \<Rightarrow> analysis_result \<Rightarrow> user option \<Rightarrow> context_data" where
  "fetchRelevantData db analysisResult usr =
     (let intent' = orElse (q_intent analysisResult) (Str ''general_query'')
      in \<lparr> intent = intent',
           data = fst (fetchSwitch db analysisResult usr intent'),
           userRole = (case usr of Some u \<Rightarrow> u_role u | None \<Rightarrow> Null),
           userName = (case usr of Some u \<Rightarrow> u_name u | None \<Rightarrow> Null) \<rparr>)"

section \<open>chatbotController.js: processQuery\<close>

text \<open>
  The four steps of \<^verbatim>\<open>processQuery\<close>. The query analyser is a parameter; when it
  throws, the \<^verbatim>\<open>catch\<close> of \<^verbatim>\<open>processQuery\<close> returns its own apology. The other
  three steps do not throw.
\<close>

definition processingApology :: string where
  "processingApology =
     ''I'm sorry, I encountered an error while processing your query. Please try again.''"

definition processQuery ::
  "controller \<Rightarrow> (string \<Rightarrow> error + analysis_result) \<Rightarrow> db_service \<Rightarrow> (jsval \<Rightarrow> string)
     \<Rightarrow> chat_endpoint \<Rightarrow> string \<Rightarrow> message list \<Rightarrow> user option \<Rightarrow> string \<times> http_call list" where
  "processQuery this analyzeQuery db toLocaleDateString post query conversationHistory usr =
     (case analyzeQuery query of
        Inl err \<Rightarrow> (processingApology, [])
      | Inr analysisResult \<Rightarrow>
          (let contextData = fetchRelevantData db analysisResult usr;
               formattedContext = formatContextData toLocaleDateString contextData;
               response = generateResponse this post query formattedContext conversationHistory usr
           in response))"

section \<open>chatbotRoutes.js: the entity summarizer\<close>

text \<open>
  The documents the cache rebuild reads (\<^verbatim>\<open>Model.find().lean()\<close>). An \<^verbatim>\<open>_id\<close> is
  modelled by its \<^verbatim>\<open>toString()\<close>. An array field that the code calls a method on
  (\<^verbatim>\<open>exam.semesters.map\<close>, \<^verbatim>\<open>roomAlloc.students.length\<close>) is an \<open>option\<close>,
  \<open>None\<close> when the document lacks it.
\<close>

record exam_doc =
  ed_id :: string
  ed_name :: jsval
  ed_year :: jsval
  ed_semesters :: "semester_entry list option"
  ed_faculty :: "string list option"
  ed_rooms :: "string list option"

record room_doc =
  rd_id :: string
  rd_building :: jsval
  rd_roomNumber :: jsval
  rd_capacity :: jsval

record faculty_doc =
  fd_id :: string
  fd_name :: jsval
  fd_designation :: jsval

text \<open>
  A populated reference (\<^verbatim>\<open>.populate('exam')\<close>): the rebuild reads nothing of the
  referenced document but its \<^verbatim>\<open>_id\<close>, so the reference is that id, and \<open>None\<close>
  when the referenced document no longer exists (Mongoose then leaves \<^verbatim>\<open>null\<close>).
\<close>

type_synonym populated = "string option"

record subject_doc =
  sd_id :: string
  sd_name :: jsval
  sd_subjectCode :: jsval
  sd_semester :: jsval
  sd_date :: jsval
  sd_startTime :: jsval
  sd_endTime :: jsval
  sd_exam :: populated

record allocation_doc =
  ad_id :: string
  ad_examId :: populated
  ad_subjectId :: populated
  ad_roomId :: populated
  ad_facultyId :: populated
  ad_date :: jsval
  ad_startTime :: jsval
  ad_endTime :: jsval

record room_allocation_doc =
  ra_id :: string
  ra_examId :: populated
  ra_roomId :: populated
  ra_subjectId :: populated
  ra_subjectIds :: "populated list option"
  ra_students :: "jsval list option"
  ra_date :: jsval
  ra_startTime :: jsval
  ra_endTime :: jsval

text \<open>
  The source's \<^verbatim>\<open>formatDate\<close>,
  \<^verbatim>\<open>new Date(date).toLocaleDateString('en-US', {year, month, day})\<close>, which does not
  throw. \<^verbatim>\<open>new Date(undefined)\<close> is the invalid date, rendered as
  \<^verbatim>\<open>Invalid Date\<close>; how any other value is rendered (\<open>localeDate\<close>) depends on
  the host's date parsing and time zone and is a parameter.
\<close>

definition formatDate :: "(jsval \<Rightarrow> string) \<Rightarrow> jsval \<Rightarrow> string" where
  "formatDate localeDate date =
     (case date of Undefined \<Rightarrow> ''Invalid Date'' | _ \<Rightarrow> localeDate date)"

text \<open>
  The three text builders. Every field is put into the template as it is
  (\<open>toStr\<close>); every element of a joined list is rendered.
\<close>

definition subjectLine :: "(jsval \<Rightarrow> string) \<Rightarrow> subject_doc \<Rightarrow> string" where
  "subjectLine localeDate s =
     toStr (sd_name s) @ '' ('' @ toStr (sd_subjectCode s) @ '') on '' @ formatDate localeDate (sd_date s)
       @ '' '' @ toStr (sd_startTime s) @ ''-'' @ toStr (sd_endTime s)"

definition facultyLine :: "faculty_doc \<Rightarrow> string" where
  "facultyLine f = toStr (fd_name f) @ '' ('' @ toStr (fd_designation f) @ '')''"

definition roomLine :: "room_doc \<Rightarrow> string" where
  "roomLine r =
     toStr (rd_building r) @ '' Room '' @ toStr (rd_roomNumber r)
       @ '' (Capacity: '' @ toStr (rd_capacity r) @ '')''"

definition semesterLine :: "semester_entry \<Rightarrow> string" where
  "semesterLine s =
     ''Sem '' @ toStr (se_semester s) @ '' ('' @ toStr (se_totalStudents s) @ '' students)''"

definition buildExamText ::
  "(jsval \<Rightarrow> string) \<Rightarrow> exam_doc \<Rightarrow> subject_doc list \<Rightarrow> faculty_doc list \<Rightarrow> room_doc list
     \<Rightarrow> error + string" where
  "buildExamText localeDate exam subjects faculties rooms =
     (let subjectList = join ''\<newline>  - '' (map (subjectLine localeDate) subjects);
          facultyList = join ''\<newline>  - '' (map facultyLine faculties);
          roomList = join ''\<newline>  - '' (map roomLine rooms)
      in case ed_semesters exam of
           None \<Rightarrow> Inl (TypeError ''Cannot read properties of undefined (reading 'map')'')
         | Some semesters \<Rightarrow>
             Inr (''Exam: '' @ toStr (ed_name exam) @ '' (Year: '' @ toStr (ed_year exam) @ '')\<newline>'' @
                  ''- Semesters: '' @ join '', '' (map semesterLine semesters) @ ''\<newline>'' @
                  ''- Subjects:\<newline>'' @
                  ''  - '' @ subjectList @ ''\<newline>'' @
                  ''- Faculties:\<newline>'' @
                  ''  - '' @ facultyList @ ''\<newline>'' @
                  ''- Rooms:\<newline>'' @
                  ''  - '' @ roomList))"

definition buildAllocationText ::
  "(jsval \<Rightarrow> string) \<Rightarrow> allocation_doc \<Rightarrow> exam_doc \<Rightarrow> subject_doc \<Rightarrow> room_doc \<Rightarrow> faculty_doc
     \<Rightarrow> string" where
  "buildAllocationText localeDate alloc exam subject room faculty =
     ''Allocation for '' @ toStr (ed_name exam) @ '':\<newline>'' @
     ''- Faculty: '' @ toStr (fd_name faculty) @ '' ('' @ toStr (fd_designation faculty) @ '')\<newline>'' @
     ''- Subject: '' @ toStr (sd_name subject) @ '' (Sem '' @ toStr (sd_semester subject) @ '')\<newline>'' @
     ''- Room: '' @ toStr (rd_building room) @ '' Room '' @ toStr (rd_roomNumber room) @ ''\<newline>'' @
     ''- Date: '' @ formatDate localeDate (ad_date alloc) @ ''\<newline>'' @
     ''- Time: '' @ toStr (ad_startTime alloc) @ '' to '' @ toStr (ad_endTime alloc)"

definition roomSubjectLine :: "subject_doc \<Rightarrow> string" where
  "roomSubjectLine s = toStr (sd_name s) @ '' (Sem '' @ toStr (sd_semester s) @ '')''"

definition buildRoomAllocationText ::
  "(jsval \<Rightarrow> string) \<Rightarrow> room_allocation_doc \<Rightarrow> exam_doc \<Rightarrow> room_doc \<Rightarrow> subject_doc list
     \<Rightarrow> error + string" where
  "buildRoomAllocationText localeDate roomAlloc exam room subjects =
     (let subjectList =
            (if length subjects > 0 then join '' and '' (map roomSubjectLine subjects)
             else ''No subjects specified'')
      in case ra_students roomAlloc of
           None \<Rightarrow> Inl (TypeError ''Cannot read properties of undefined (reading 'length')'')
         | Some students \<Rightarrow>
             Inr (''Room Allocation for '' @ toStr (ed_name exam) @ '':\<newline>'' @
                  ''- Room: '' @ toStr (rd_building room) @ '' Room '' @ toStr (rd_roomNumber room)
                    @ '' (Capacity: '' @ toStr (rd_capacity room) @ '')\<newline>'' @
                  ''- Subjects: '' @ subjectList @ ''\<newline>'' @
                  ''- Students: '' @ showNat (length students) @ '' students\<newline>'' @
                  ''- Date: '' @ formatDate localeDate (ra_date roomAlloc) @ ''\<newline>'' @
                  ''- Time: '' @ toStr (ra_startTime roomAlloc) @ '' to ''
                    @ toStr (ra_endTime roomAlloc)))"

section \<open>chatbotRoutes.js: the embedding gateway and the cache rebuild\<close>

type_synonym vector = "real list"

text \<open>
  The embedding endpoint is a parameter: it answers a text with a vector or rejects.
  \<open>getEmbedding\<close> turns every failure into the one error it throws.
\<close>

type_synonym embedding_endpoint = "jsval \<Rightarrow> error + vector"

definition getEmbedding :: "embedding_endpoint \<Rightarrow> jsval \<Rightarrow> error + vector" where
  "getEmbedding post_embeddings text' =
     (case post_embeddings text' of
        Inl err \<Rightarrow> Inl (Error ''Failed to generate embeddings'')
      | Inr embedding \<Rightarrow> Inr embedding)"

text \<open>The metadata of the three kinds of indexed document.\<close>

record exam_metadata =
  xm_examId :: string
  xm_name :: jsval
  xm_year :: jsval
  xm_semesters :: "jsval list"

record allocation_metadata =
  am_allocationId :: string
  am_examId :: string
  am_subjectId :: string
  am_roomId :: string
  am_facultyId :: string
  am_date :: jsval
  am_time :: string

record room_allocation_metadata =
  rm_roomAllocationId :: string
  rm_examId :: string
  rm_roomId :: string
  rm_subjectIds :: "string list"
  rm_studentCount :: nat
  rm_date :: jsval
  rm_time :: string

datatype metadata =
    ExamMetadata exam_metadata
  | AllocationMetadata allocation_metadata
  | RoomAllocationMetadata room_allocation_metadata

text \<open>\<^verbatim>\<open>metadata.type\<close>.\<close>

fun type_of :: "metadata \<Rightarrow> string" where
  "type_of (ExamMetadata m) = ''exam''"
| "type_of (AllocationMetadata m) = ''allocation''"
| "type_of (RoomAllocationMetadata m) = ''room_allocation''"

record indexed_document =
  doc_id :: string
  doc_content :: string
  doc_embedding :: vector
  doc_metadata :: metadata

text \<open>
  The lookup maps, \<^verbatim>\<open>new Map(docs.map(d => [d._id.toString(), d]))\<close>: of two documents
  with one id the later one stays. \<open>getAll\<close> is
  \<^verbatim>\<open>ids.map(id => map.get(id)).filter(Boolean)\<close>.
\<close>

definition mapById :: "('a \<Rightarrow> string) \<Rightarrow> 'a list \<Rightarrow> string \<Rightarrow> 'a option" where
  "mapById ident docs = map_of (rev (map (\<lambda>d. (ident d, d)) docs))"

definition getAll :: "(string \<Rightarrow> 'a option) \<Rightarrow> string list \<Rightarrow> 'a list" where
  "getAll m ids = map the (filter (\<lambda>found. found \<noteq> None) (map m ids))"

text \<open>\<^verbatim>\<open>ref._id\<close> of a populated reference: a \<^verbatim>\<open>TypeError\<close> on \<^verbatim>\<open>null\<close>.\<close>

definition idOf :: "populated \<Rightarrow> error + string" where
  "idOf r =
     (case r of
        None \<Rightarrow> Inl (TypeError ''Cannot read properties of null (reading '_id')'')
      | Some i \<Rightarrow> Inr i)"

text \<open>The ids of a list of populated references, failing at the first \<^verbatim>\<open>null\<close>.\<close>

fun idsOf :: "populated list \<Rightarrow> error + string list" where
  "idsOf [] = Inr []"
| "idsOf (r # rs) =
     (case idOf r of
        Inl err \<Rightarrow> Inl err
      | Inr i \<Rightarrow> (case idsOf rs of Inl err \<Rightarrow> Inl err | Inr is \<Rightarrow> Inr (i # is)))"

text \<open>
  What the six queries of the rebuild returned.
\<close>

record source_data =
  src_exams :: "exam_doc list"
  src_rooms :: "room_doc list"
  src_subjects :: "subject_doc list"
  src_allocations :: "allocation_doc list"
  src_roomAllocations :: "room_allocation_doc list"
  src_faculties :: "faculty_doc list"

text \<open>
  How the \<^verbatim>\<open>async\<close> callback of one source record ends: it returns \<^verbatim>\<open>null\<close>
  (\<open>Skipped\<close>), it inserts its document (\<open>Inserted\<close>), it throws before its first
  \<^verbatim>\<open>await\<close> (\<open>Threw\<close>), or its \<^verbatim>\<open>await getEmbedding\<close> rejects (\<open>Rejected\<close>). In
  the last two cases its promise is rejected and \<^verbatim>\<open>insertOne\<close> is never reached.
\<close>

datatype outcome = Skipped | Inserted indexed_document | Threw error | Rejected error

text \<open>
  \<^verbatim>\<open>astraCollection.insertOne({..., embedding: await getEmbedding(content), ...})\<close>
  for a content already built.
\<close>

definition embedAndInsert ::
  "embedding_endpoint \<Rightarrow> string \<Rightarrow> string \<Rightarrow> metadata \<Rightarrow> outcome" where
  "embedAndInsert post_embeddings ident content' meta =
     (case getEmbedding post_embeddings (Str content') of
        Inl err \<Rightarrow> Rejected err
      | Inr embedding \<Rightarrow>
          Inserted \<lparr> doc_id = ident, doc_content = content', doc_embedding = embedding,
                     doc_metadata = meta \<rparr>)"

text \<open>
  \<^verbatim>\<open>subjects.filter(s => s.exam._id.toString() === exam._id.toString())\<close>: the test
  throws at the first subject whose exam is \<^verbatim>\<open>null\<close>.
\<close>

fun subjectsOfExam :: "string \<Rightarrow> subject_doc list \<Rightarrow> error + subject_doc list" where
  "subjectsOfExam examId [] = Inr []"
| "subjectsOfExam examId (s # rest) =
     (case idOf (sd_exam s) of
        Inl err \<Rightarrow> Inl err
      | Inr i \<Rightarrow>
          (case subjectsOfExam examId rest of
             Inl err \<Rightarrow> Inl err
           | Inr kept \<Rightarrow> Inr (if i = examId then s # kept else kept)))"

definition examInsert ::
  "(jsval \<Rightarrow> string) \<Rightarrow> embedding_endpoint \<Rightarrow> source_data \<Rightarrow> exam_doc \<Rightarrow> outcome" where
  "examInsert localeDate post_embeddings src exam =
     (let roomMap = mapById rd_id (src_rooms src);
          facultyMap = mapById fd_id (src_faculties src)
      in case subjectsOfExam (ed_id exam) (src_subjects src) of
           Inl err \<Rightarrow> Threw err
         | Inr examSubjects \<Rightarrow>
        (case ed_faculty exam of
           None \<Rightarrow> Threw (TypeError ''Cannot read properties of undefined (reading 'map')'')
         | Some facultyIds \<Rightarrow>
        (case ed_rooms exam of
           None \<Rightarrow> Threw (TypeError ''Cannot read properties of undefined (reading 'map')'')
         | Some roomIds \<Rightarrow>
        (let examFaculties = getAll facultyMap facultyIds;
             examRooms = getAll roomMap roomIds
         in case buildExamText localeDate exam examSubjects examFaculties examRooms of
              Inl err \<Rightarrow> Threw err
            | Inr content' \<Rightarrow>
                embedAndInsert post_embeddings (''exam_'' @ ed_id exam) content'
                  (ExamMetadata
                     \<lparr> xm_examId = ed_id exam, xm_name = ed_name exam, xm_year = ed_year exam,
                       xm_semesters =
                         (case ed_semesters exam of
                            None \<Rightarrow> [] | Some semesters \<Rightarrow> map se_semester semesters) \<rparr>)))))"

text \<open>
  The callback of \<^verbatim>\<open>allocInserts\<close>. The four \<^verbatim>\<open>._id\<close> reads come first, in the
  source's order; the test that skips the record comes after them.
\<close>

definition allocInsert ::
  "(jsval \<Rightarrow> string) \<Rightarrow> embedding_endpoint \<Rightarrow> source_data \<Rightarrow> allocation_doc \<Rightarrow> outcome" where
  "allocInsert localeDate post_embeddings src alloc =
     (let examMap = mapById ed_id (src_exams src);
          roomMap = mapById rd_id (src_rooms src);
          subjectMap = mapById sd_id (src_subjects src);
          facultyMap = mapById fd_id (src_faculties src)
      in case idOf (ad_examId alloc) of Inl err \<Rightarrow> Threw err | Inr examId \<Rightarrow>
        (case idOf (ad_subjectId alloc) of Inl err \<Rightarrow> Threw err | Inr subjectId \<Rightarrow>
        (case idOf (ad_roomId alloc) of Inl err \<Rightarrow> Threw err | Inr roomId \<Rightarrow>
        (case idOf (ad_facultyId alloc) of Inl err \<Rightarrow> Threw err | Inr facultyId \<Rightarrow>
        (case (examMap examId, subjectMap subjectId, roomMap roomId, facultyMap facultyId) of
           (Some exam, Some subject, Some room, Some faculty) \<Rightarrow>
             (let content' = buildAllocationText localeDate alloc exam subject room faculty
              in embedAndInsert post_embeddings (''alloc_'' @ ad_id alloc) content'
                   (AllocationMetadata
                      \<lparr> am_allocationId = ad_id alloc, am_examId = ed_id exam,
                        am_subjectId = sd_id subject, am_roomId = rd_id room,
                        am_facultyId = fd_id faculty, am_date = ad_date alloc,
                        am_time = toStr (ad_startTime alloc) @ ''-'' @ toStr (ad_endTime alloc) \<rparr>))
         | _ \<Rightarrow> Skipped)))))"

text \<open>The callback of \<^verbatim>\<open>roomAllocInserts\<close>.\<close>

definition roomAllocInsert ::
  "(jsval \<Rightarrow> string) \<Rightarrow> embedding_endpoint \<Rightarrow> source_data \<Rightarrow> room_allocation_doc \<Rightarrow> outcome" where
  "roomAllocInsert localeDate post_embeddings src roomAlloc =
     (let examMap = mapById ed_id (src_exams src);
          roomMap = mapById rd_id (src_rooms src);
          subjectMap = mapById sd_id (src_subjects src)
      in case idOf (ra_examId roomAlloc) of Inl err \<Rightarrow> Threw err | Inr examId \<Rightarrow>
        (case idOf (ra_roomId roomAlloc) of Inl err \<Rightarrow> Threw err | Inr roomId \<Rightarrow>
        (case (case ra_subjectId roomAlloc of
                 Some i \<Rightarrow> Inr [i]
               | None \<Rightarrow>
                   (case ra_subjectIds roomAlloc of
                      None \<Rightarrow> Inl (TypeError ''Cannot read properties of undefined (reading 'map')'')
                    | Some refs \<Rightarrow> idsOf refs)) of
           Inl err \<Rightarrow> Threw err
         | Inr subjectIds \<Rightarrow>
        (let roomSubjects = getAll subjectMap subjectIds
         in case (examMap examId, roomMap roomId) of
              (Some exam, Some room) \<Rightarrow>
                if length roomSubjects = 0 then Skipped
                else (case buildRoomAllocationText localeDate roomAlloc exam room roomSubjects of
                        Inl err \<Rightarrow> Threw err
                      | Inr content' \<Rightarrow>
                          embedAndInsert post_embeddings (''roomalloc_'' @ ra_id roomAlloc) content'
                            (RoomAllocationMetadata
                               \<lparr> rm_roomAllocationId = ra_id roomAlloc, rm_examId = ed_id exam,
                                 rm_roomId = rd_id room, rm_subjectIds = map sd_id roomSubjects,
                                 rm_studentCount =
                                   (case ra_students roomAlloc of
                                      None \<Rightarrow> 0 | Some students \<Rightarrow> length students),
                                 rm_date = ra_date roomAlloc,
                                 rm_time = toStr (ra_startTime roomAlloc) @ ''-''
                                            @ toStr (ra_endTime roomAlloc) \<rparr>))
            | _ \<Rightarrow> Skipped))))"

text \<open>
  The answers of the two endpoints of this file: \<^verbatim>\<open>res.json\<close> with
  \<^verbatim>\<open>success: true\<close> and a message or an answer, or status 500 with
  \<^verbatim>\<open>success: false\<close> and the error text.
\<close>

datatype http_response =
    SuccessMessage string
  | SuccessAnswer string "string list" "real option"
  | ServerError string

text \<open>
  \<^verbatim>\<open>await Promise.all([...examInserts, ...allocInserts, ...roomAllocInserts])\<close> rejects
  with the rejection that comes first: a callback that threw before its first
  \<^verbatim>\<open>await\<close> was rejected when it was called, so the first of those in array order;
  otherwise a rejected embedding (all of them carry the same error).
\<close>

fun thrown :: "outcome \<Rightarrow> error option" where
  "thrown (Threw err) = Some err" | "thrown _ = None"

fun rejected :: "outcome \<Rightarrow> error option" where
  "rejected (Rejected err) = Some err" | "rejected _ = None"

fun inserted :: "outcome \<Rightarrow> indexed_document option" where
  "inserted (Inserted d) = Some d" | "inserted _ = None"

definition firstRejection :: "outcome list \<Rightarrow> error option" where
  "firstRejection outcomes =
     (case List.map_filter thrown outcomes of
        err # _ \<Rightarrow> Some err
      | [] \<Rightarrow> (case List.map_filter rejected outcomes of err # _ \<Rightarrow> Some err | [] \<Rightarrow> None))"

text \<open>
  The rebuild, \<^verbatim>\<open>router.post('/cache-data')\<close>, on a collection that is ready
  (\<open>Some\<close> of its documents) or not yet created (\<open>None\<close>), with the result of the
  six queries. It returns the response and the collection as it is once every started
  insert has settled: \<^verbatim>\<open>Promise.all\<close> does not cancel the callbacks that are still
  running when it rejects. The vector store's own calls are taken to succeed.
\<close>

definition allOutcomes ::
  "(jsval \<Rightarrow> string) \<Rightarrow> embedding_endpoint \<Rightarrow> source_data \<Rightarrow> outcome list" where
  "allOutcomes localeDate post_embeddings src =
     map (examInsert localeDate post_embeddings src) (src_exams src)
     @ map (allocInsert localeDate post_embeddings src) (src_allocations src)
     @ map (roomAllocInsert localeDate post_embeddings src) (src_roomAllocations src)"

definition cacheData ::
  "(jsval \<Rightarrow> string) \<Rightarrow> embedding_endpoint \<Rightarrow> indexed_document list option
     \<Rightarrow> error + source_data \<Rightarrow> http_response \<times> indexed_document list option" where
  "cacheData localeDate post_embeddings astraCollection fetched =
     (case astraCollection of
        None \<Rightarrow> (ServerError (''Cache failed: '' @ ''Database not ready''), None)
      | Some old \<Rightarrow>
          (case fetched of
             Inl err \<Rightarrow> (ServerError (''Cache failed: '' @ message_of err), Some [])
           | Inr src \<Rightarrow>
               (let outcomes = allOutcomes localeDate post_embeddings src
                in (case firstRejection outcomes of
                      Some err \<Rightarrow> ServerError (''Cache failed: '' @ message_of err)
                    | None \<Rightarrow>
                        SuccessMessage
                          (''Data cached successfully: '' @ showNat (length (src_exams src))
                             @ '' exams, '' @ showNat (length (src_allocations src))
                             @ '' allocations, '' @ showNat (length (src_roomAllocations src))
                             @ '' room allocations''),
                    Some (List.map_filter inserted outcomes)))))"

section \<open>chatbotRoutes.js: the admin chatbot\<close>

text \<open>
  One result of the vector search, \<^verbatim>\<open>includeSimilarity: true\<close>. The similarity is a
  real number here; the source compares doubles.
\<close>

record search_hit =
  hit_document :: indexed_document
  similarity :: real

record find_options =
  sort_vector :: vector
  limit :: nat
  includeSimilarity :: bool
  minSimilarity :: real

type_synonym vector_search = "find_options \<Rightarrow> error + search_hit list"

definition CHAT_MODEL :: string where
  "CHAT_MODEL = ''llama-3.2-1b-instruct''"

definition LLAMA_API_URL :: string where
  "LLAMA_API_URL = ''http://localhost:1234/v1''"

definition contentsOfType :: "string \<Rightarrow> search_hit list \<Rightarrow> string list" where
  "contentsOfType t results =
     map (\<lambda>r. doc_content (hit_document r))
       (filter (\<lambda>r. type_of (doc_metadata (hit_document r)) = t) results)"

definition contextSection :: "string \<Rightarrow> string list \<Rightarrow> string" where
  "contextSection title contexts =
     (if length contexts > 0 then title @ '':\<newline>'' @ join ''\<newline>\<newline>'' contexts @ ''\<newline>\<newline>''
      else [])"

definition buildContext :: "search_hit list \<Rightarrow> string" where
  "buildContext relevantResults =
     (let examContexts = contentsOfType ''exam'' relevantResults;
          allocationContexts = contentsOfType ''allocation'' relevantResults;
          roomAllocationContexts = contentsOfType ''room_allocation'' relevantResults
      in ''Exam System Information:\<newline>\<newline>'' @
         contextSection ''EXAMS'' examContexts @
         contextSection ''FACULTY ALLOCATIONS'' allocationContexts @
         contextSection ''ROOM ALLOCATIONS'' roomAllocationContexts)"

definition adminSystemPrompt :: "string \<Rightarrow> string" where
  "adminSystemPrompt context =
     ''You are an exam administration assistant. Strictly use ONLY the following information.\<newline>'' @
     ''If data is missing, respond with \"No data available\".\<newline>\<newline>'' @
     ''RULES:\<newline>'' @
     ''1. Be specific about dates, times, rooms, and faculty\<newline>'' @
     ''2. For student counts, provide exact numbers\<newline>'' @
     ''3. For room allocations, mention building and room number\<newline>'' @
     ''4. Never invent information\<newline>\<newline>'' @
     context"

definition relevant :: "search_hit list \<Rightarrow> search_hit list" where
  "relevant results = filter (\<lambda>r. similarity r \<ge> 0.3) results"

text \<open>
  \<^verbatim>\<open>router.post("/admin")\<close>. It returns the response and the calls made to the
  chat-completion endpoint. \<open>astraCollection\<close> is the vector search of the collection,
  \<open>None\<close> while the collection is not created.
\<close>

definition admin ::
  "embedding_endpoint \<Rightarrow> vector_search option \<Rightarrow> chat_endpoint \<Rightarrow> jsval
     \<Rightarrow> http_response \<times> http_call list" where
  "admin post_embeddings astraCollection post query =
     (if \<not> truthy query then (ServerError (''Chatbot failed: '' @ ''Query is required''), [])
      else case getEmbedding post_embeddings query of
        Inl err \<Rightarrow> (ServerError (''Chatbot failed: '' @ message_of err), [])
      | Inr queryEmbedding \<Rightarrow>
     (case astraCollection of
        None \<Rightarrow>
          (ServerError (''Chatbot failed: ''
             @ ''Cannot read properties of undefined (reading 'find')''), [])
      | Some collection_find \<Rightarrow>
     (case collection_find \<lparr> sort_vector = queryEmbedding, limit = 7, includeSimilarity = True,
                  minSimilarity = 0.25 \<rparr> of
        Inl err \<Rightarrow> (ServerError (''Chatbot failed: '' @ message_of err), [])
      | Inr results \<Rightarrow>
     (let relevantResults = relevant results
      in if length relevantResults = 0
         then (SuccessAnswer ''No relevant exam data available for this query.'' [] None, [])
         else
          (let context = buildContext relevantResults;
               call = \<lparr> url = LLAMA_API_URL @ ''/chat/completions'',
                        body = \<lparr> model = CHAT_MODEL,
                                 messages =
                                   [\<lparr> m_role = ''system'', m_content = adminSystemPrompt context \<rparr>,
                                    \<lparr> m_role = ''user'', m_content = toStr query \<rparr>],
                                 temperature = 1 / 10,
                                 max_tokens = 600 \<rparr>,
                        timeout = None \<rparr>
           in (case post call of
                 Inl err \<Rightarrow> ServerError (''Chatbot failed: '' @ message_of err)
               | Inr choices \<Rightarrow>
                   (case choices of
                      [] \<Rightarrow> ServerError (''Chatbot failed: ''
                              @ ''Cannot read properties of undefined (reading 'message')'')
                    | content # _ \<Rightarrow>
                        SuccessAnswer content
                          (map (\<lambda>r. type_of (doc_metadata (hit_document r))) relevantResults)
                          (case relevantResults of
                             [] \<Rightarrow> None | r # _ \<Rightarrow> Some (similarity r))),
               [call]))))))"

section \<open>chatbot.js: validation and response generation\<close>



datatype lc_message = SystemMessage string | HumanMessage string | AIMessage string







datatype collaborator_call =
    Initialize
  | Query string
  | Invoke "lc_message list"
  | AddMessage jsval string string jsval






section \<open>Concrete inputs\<close>

text \<open>
  A database service whose lookups all succeed, an analyser result with nothing but its
  intent, and users by role: the inputs the closed theorems below are evaluated at.
\<close>

definition sampleStats :: stats where
  "sampleStats = \<lparr> totalExams = Num 2, totalRooms = Num 3, totalFaculty = Num 4,
              totalSubjects = Num 5, currentAllocations = Num 6, upcomingExams = Num 1 \<rparr>"

definition sampleAllocation :: allocation where
  "sampleAllocation = \<lparr> a_facultyName = Str ''Dr. Rao'', a_facultyId = None, a_examId = Some (Raw ''e1''),
      a_subjectId = None, a_roomId = None, a_date = Undefined, a_startTime = Undefined, a_endTime = Undefined \<rparr>"

definition sampleDb :: db_service where
  "sampleDb = \<lparr> findExams = (\<lambda>f. Inr []), findSubjects = (\<lambda>f. Inr []), findRooms = (\<lambda>f. Inr []),
           findFaculty = (\<lambda>f. Inr []),
           findFacultyAllocations = (\<lambda>f. Inr (if past (af_time f) then [] else [sampleAllocation])),
           findStudentAllocations = (\<lambda>f. Inr []),
           getSystemStats = Inr sampleStats \<rparr>"

definition analysisOf :: "string \<Rightarrow> analysis_result" where
  "analysisOf i = \<lparr> q_intent = Str i, q_time_period = Undefined, q_exam_name = Undefined, q_exam_year = Undefined,
     q_semester = Undefined, q_subject_name = Undefined, q_subject_code = Undefined, q_date = Undefined,
     q_faculty_name = Undefined, q_faculty_id = Undefined, q_room_id = Undefined, q_building = Undefined,
     q_room_number = Undefined, q_floor = Undefined, q_student = Undefined, q_email = Undefined,
     q_designation = Undefined \<rparr>"

definition userOf :: "string \<Rightarrow> string \<Rightarrow> user" where
  "userOf r n = \<lparr> u_id = Str ''u1'', u_name = Str n, u_role = Str r, u_email = Undefined,
      u_designation = Undefined, u_available = True \<rparr>"

definition roomQuery :: analysis_result where
  "roomQuery = (analysisOf ''room_info'') \<lparr> q_room_number := Str ''101'' \<rparr>"

definition plainDate :: "jsval \<Rightarrow> string" where
  "plainDate d = toStr d"

definition facultyNamed :: "string \<Rightarrow> string \<Rightarrow> jsval \<Rightarrow> faculty_doc" where
  "facultyNamed i n d = \<lparr> fd_id = i, fd_name = Str n, fd_designation = d \<rparr>"

definition fourFaculties :: "faculty_doc list" where
  "fourFaculties =
     [facultyNamed ''f1'' ''Asha'' (Str ''Professor''), facultyNamed ''f2'' ''Bala'' Undefined,
      facultyNamed ''f3'' ''Chitra'' (Str ''Lecturer''), facultyNamed ''f4'' ''Dev'' (Str ''Lecturer'')]"

definition midterm :: exam_doc where
  "midterm = \<lparr> ed_id = ''e1'', ed_name = Str ''Midterm'', ed_year = Num 2025,
      ed_semesters = Some [\<lparr> se_semester = Num 3, se_totalStudents = Num 60 \<rparr>],
      ed_faculty = Some [''f1'', ''f2'', ''f3'', ''f4''], ed_rooms = Some [''r1''] \<rparr>"

definition roomR1 :: room_doc where
  "roomR1 = \<lparr> rd_id = ''r1'', rd_building = Str ''Main'', rd_roomNumber = Str ''101'',
               rd_capacity = Num 40 \<rparr>"

definition subjectS1 :: subject_doc where
  "subjectS1 = \<lparr> sd_id = ''s1'', sd_name = Str ''Algebra'', sd_subjectCode = Str ''MA101'',
      sd_semester = Num 3, sd_date = Str ''2025-03-01'', sd_startTime = Str ''09:00'',
      sd_endTime = Str ''12:00'', sd_exam = Some ''e1'' \<rparr>"

definition allocationOf :: "string \<Rightarrow> populated \<Rightarrow> allocation_doc" where
  "allocationOf i examRef = \<lparr> ad_id = i, ad_examId = examRef, ad_subjectId = Some ''s1'',
      ad_roomId = Some ''r1'', ad_facultyId = Some ''f1'', ad_date = Str ''2025-03-01'',
      ad_startTime = Str ''09:00'', ad_endTime = Str ''12:00'' \<rparr>"

definition sourceWith :: "allocation_doc list \<Rightarrow> source_data" where
  "sourceWith allocs = \<lparr> src_exams = [midterm], src_rooms = [roomR1], src_subjects = [subjectS1],
      src_allocations = allocs, src_roomAllocations = [], src_faculties = fourFaculties \<rparr>"

definition steadyEmbedding :: embedding_endpoint where
  "steadyEmbedding input = Inr [1 / 2, 1 / 4]"


definition emptyRoomAllocation :: room_allocation_doc where
  "emptyRoomAllocation = \<lparr> ra_id = ''ra1'', ra_examId = Some ''e1'', ra_roomId = Some ''r1'',
      ra_subjectId = None, ra_subjectIds = Some [], ra_students = Some [Str ''1MS21CS001''],
      ra_date = Str ''2025-03-01'', ra_startTime = Str ''09:00'', ra_endTime = Str ''12:00'' \<rparr>"

definition examHit :: "string \<Rightarrow> real \<Rightarrow> search_hit" where
  "examHit content' sim =
     \<lparr> hit_document =
         \<lparr> doc_id = ''exam_e1'', doc_content = content', doc_embedding = [],
           doc_metadata = ExamMetadata \<lparr> xm_examId = ''e1'', xm_name = Str ''Midterm'',
                                         xm_year = Num 2025, xm_semesters = [] \<rparr> \<rparr>,
       similarity = sim \<rparr>"

definition allocationHit :: "string \<Rightarrow> real \<Rightarrow> search_hit" where
  "allocationHit content' sim =
     \<lparr> hit_document =
         \<lparr> doc_id = ''alloc_a1'', doc_content = content', doc_embedding = [],
           doc_metadata = AllocationMetadata
             \<lparr> am_allocationId = ''a1'', am_examId = ''e1'', am_subjectId = ''s1'',
               am_roomId = ''r1'', am_facultyId = ''f1'', am_date = Str ''2025-03-01'',
               am_time = ''09:00-12:00'' \<rparr> \<rparr>,
       similarity = sim \<rparr>"

definition roomAllocationHit :: "string \<Rightarrow> real \<Rightarrow> search_hit" where
  "roomAllocationHit content' sim =
     \<lparr> hit_document =
         \<lparr> doc_id = ''roomalloc_ra1'', doc_content = content', doc_embedding = [],
           doc_metadata = RoomAllocationMetadata
             \<lparr> rm_roomAllocationId = ''ra1'', rm_examId = ''e1'', rm_roomId = ''r1'',
               rm_subjectIds = [''s1''], rm_studentCount = 30, rm_date = Str ''2025-03-01'',
               rm_time = ''09:00-12:00'' \<rparr> \<rparr>,
       similarity = sim \<rparr>"

definition sevenHits :: "search_hit list" where
  "sevenHits =
     [allocationHit ''A1'' 0.9, examHit ''E1'' 0.8, roomAllocationHit ''R1'' 0.5,
      examHit ''E2'' 0.45, roomAllocationHit ''R2'' 0.3, allocationHit ''A2'' 0.29,
      examHit ''E3'' 0.26]"

definition weakHits :: "search_hit list" where
  "weakHits = [allocationHit ''A1'' 0.29, examHit ''E1'' 0.28, roomAllocationHit ''R1'' 0.27,
      examHit ''E2'' 0.27, roomAllocationHit ''R2'' 0.26, allocationHit ''A2'' 0.26,
      examHit ''E3'' 0.25]"

definition answering :: chat_endpoint where
  "answering call = Inr [''The midterm is in Main 101.'']"



definition lecturer :: faculty_doc where
  "lecturer = facultyNamed ''f9'' ''Esha'' (Str ''Lecturer'')"

definition finals :: exam_doc where
  "finals = \<lparr> ed_id = ''e2'', ed_name = Str ''Finals'', ed_year = Num 2025,
      ed_semesters = Some [\<lparr> se_semester = Num 1, se_totalStudents = Num 60 \<rparr>,
                           \<lparr> se_semester = Num 3, se_totalStudents = Num 55 \<rparr>,
                           \<lparr> se_semester = Num 5, se_totalStudents = Num 50 \<rparr>,
                           \<lparr> se_semester = Num 7, se_totalStudents = Undefined \<rparr>],
      ed_faculty = Some [''f1'', ''f2'', ''f3'', ''f4''], ed_rooms = Some [''r1''] \<rparr>"

definition subjectNamed :: "string \<Rightarrow> string \<Rightarrow> jsval \<Rightarrow> subject_doc" where
  "subjectNamed i n d = \<lparr> sd_id = i, sd_name = Str n, sd_subjectCode = Str (''C'' @ i),
      sd_semester = Num 3, sd_date = d, sd_startTime = Str ''09:00'',
      sd_endTime = Undefined, sd_exam = Some ''e2'' \<rparr>"

definition fourSubjects :: "subject_doc list" where
  "fourSubjects = [subjectNamed ''1'' ''Algebra'' (Str ''2025-03-01''),
                   subjectNamed ''2'' ''Biology'' Undefined,
                   subjectNamed ''3'' ''Chemistry'' (Str ''2025-03-03''),
                   subjectNamed ''4'' ''Drawing'' (Str ''2025-03-04'')]"

definition roomNumbered :: "string \<Rightarrow> room_doc" where
  "roomNumbered n = \<lparr> rd_id = ''r'' @ n, rd_building = Str ''Main'', rd_roomNumber = Str n,
               rd_capacity = Num 40 \<rparr>"

definition fourRooms :: "room_doc list" where
  "fourRooms = [roomNumbered ''101'', roomNumbered ''102'', roomNumbered ''103'', roomNumbered ''104'']"

definition undatedAllocation :: allocation_doc where
  "undatedAllocation = (allocationOf ''a1'' (Some ''e1'')) \<lparr> ad_date := Undefined \<rparr>"

section \<open>Properties of the response generator\<close>

lemma slice_from_neg:
  "slice_from (- int n) xs = (if n = 0 then xs else drop (length xs - n) xs)"
  by (auto simp: slice_from_def Let_def max_def nat_diff_distrib')

text \<open>
  C7. The message sequence sent to the chat-completion endpoint is the system prompt,
  then the last five entries of the conversation history in their order, then the
  current user turn. Exactly one call is made; what is older than the last five entries
  of the history (\<open>older\<close>) does not appear in it in any form.
\<close>

theorem C7_message_sequence:
  "\<exists>call older recent.
      snd (generateResponse (constructor e1 e2) post query context history usr) = [call]
    \<and> history = older @ recent
    \<and> length recent = min 5 (length history)
    \<and> messages (body call) =
        [\<lparr> m_role = ''system'', m_content = systemPrompt context usr \<rparr>]
        @ recent
        @ [\<lparr> m_role = ''user'', m_content = query \<rparr>]"
proof -
  let ?recent = "drop (length history - 5) history"
  let ?older = "take (length history - 5) history"
  have cut: "history = ?older @ ?recent" by simp
  have len: "length ?recent = min 5 (length history)" by auto
  have sl: "slice_from (- int (CONVERSATION_HISTORY_LENGTH (constructor e1 e2))) history = ?recent"
    using slice_from_neg [of 5 history] by (simp add: constructor_def)
  have msgs: "buildMessages (constructor e1 e2) query context history usr =
      [\<lparr> m_role = ''system'', m_content = systemPrompt context usr \<rparr>] @ ?recent
      @ [\<lparr> m_role = ''user'', m_content = query \<rparr>]"
    unfolding buildMessages_def Let_def sl by simp
  define call where "call = chatCall (constructor e1 e2) query context history usr"
  have run: "snd (generateResponse (constructor e1 e2) post query context history usr) = [call]"
    by (simp add: generateResponse_def Let_def call_def)
  have sent: "messages (body call) =
      [\<lparr> m_role = ''system'', m_content = systemPrompt context usr \<rparr>] @ ?recent
      @ [\<lparr> m_role = ''user'', m_content = query \<rparr>]"
    by (simp add: call_def chatCall_def msgs)
  show ?thesis
    by (intro exI conjI) (rule run, rule cut, rule len, rule sent)
qed

text \<open>
  C8. When the chat-completion request fails, the generator's reply is the fixed apology,
  and so is the reply of \<^verbatim>\<open>processQuery\<close>, which calls the generator last. The reply
  is a string whatever the endpoint does, so no error value reaches the caller.
\<close>

theorem C8_generation_failure_apology:
  "(post (chatCall self query formatted history usr) = Inl err \<longrightarrow>
      fst (generateResponse self post query formatted history usr) =
        ''I'm sorry, I encountered an error while generating a response. Please try again.'')
   \<and> (analyzeQuery query = Inr analysisResult
        \<and> post (chatCall self query
                   (formatContextData toLocaleDateString (fetchRelevantData db analysisResult usr))
                   history usr) = Inl err'
      \<longrightarrow> fst (processQuery self analyzeQuery db toLocaleDateString post query history usr) =
            ''I'm sorry, I encountered an error while generating a response. Please try again.'')"
  by (simp add: generateResponse_def processQuery_def generationApology_def Let_def)

theorem C8_generation_failure_apology_witness:
  "fst (generateResponse (constructor Undefined Undefined)
          (\<lambda>call. Inl (Error ''timeout of 30000ms exceeded''))
          ''When is the exam?'' ''CONTEXT'' [] None) =
     ''I'm sorry, I encountered an error while generating a response. Please try again.''
   \<and> fst (processQuery (constructor Undefined Undefined)
            (\<lambda>q. Inr (analysisOf ''system_stats'')) sampleDb plainDate
            (\<lambda>call. Inl (Error ''Request failed with status code 503''))
            ''How many exams are there?'' [] None) =
     ''I'm sorry, I encountered an error while generating a response. Please try again.''"
  using C8_generation_failure_apology
          [where post = "\<lambda>call. Inl (Error ''timeout of 30000ms exceeded'')"
             and self = "constructor Undefined Undefined" and query = "''When is the exam?''"
             and formatted = "''CONTEXT''" and history = "[]" and usr = None
             and err = "Error ''timeout of 30000ms exceeded''"]
        C8_generation_failure_apology
          [where post = "\<lambda>call. Inl (Error ''Request failed with status code 503'')"
             and self = "constructor Undefined Undefined"
             and query = "''How many exams are there?''"
             and history = "[]" and usr = None
             and analyzeQuery = "\<lambda>q. Inr (analysisOf ''system_stats'')"
             and analysisResult = "analysisOf ''system_stats''" and db = sampleDb
             and toLocaleDateString = plainDate
             and err' = "Error ''Request failed with status code 503''"]
  by simp

section \<open>Properties of the intent router and the formatter\<close>

lemma system_stats_switch:
  "fetchSwitch db ar usr (Str ''system_stats'') =
     (if (case usr of None \<Rightarrow> True | Some u \<Rightarrow> u_role u = Str ''Admin'')
      then store ''stats'' (mapResult StatsObject (getSystemStats db)) []
      else store ''facultyStats'' (personalStats db (facultyIdOf usr)) [])"
  by (simp add: fetchSwitch_def Let_def)

lemma store_empty:
  "fst (store k r []) = (case r of Inl e \<Rightarrow> [] | Inr v \<Rightarrow> [(k, v)])"
  by (simp add: store_def split: sum.splits)

lemma system_stats_data:
  assumes "q_intent ar = Str ''system_stats''"
  shows "data (fetchRelevantData db ar usr) =
     (if (case usr of None \<Rightarrow> True | Some u \<Rightarrow> u_role u = Str ''Admin'')
      then (case getSystemStats db of Inl e \<Rightarrow> [] | Inr st \<Rightarrow> [(''stats'', StatsObject st)])
      else (case personalStats db (facultyIdOf usr) of Inl e \<Rightarrow> [] | Inr v \<Rightarrow> [(''facultyStats'', v)]))"
  using assms
  by (simp add: fetchRelevantData_def Let_def orElse_def system_stats_switch store_empty mapResult_def
           split: sum.splits)

text \<open>
  C1, as stated, fails for an absent user: the \<^verbatim>\<open>system_stats\<close> branch tests
  \<^verbatim>\<open>!user || user.role === 'Admin'\<close>, so a query without a user is answered with the
  global \<^verbatim>\<open>stats\<close> object and no \<^verbatim>\<open>facultyStats\<close>. It also fails when the lookup
  throws: the router's \<^verbatim>\<open>catch\<close> then returns the bundle with no data at all, here for
  an Admin.
\<close>

theorem C1_anonymous_counterexample:
  "map_of (data (fetchRelevantData sampleDb (analysisOf ''system_stats'') None)) ''stats''
     = Some (StatsObject sampleStats)
   \<and> map_of (data (fetchRelevantData sampleDb (analysisOf ''system_stats'') None)) ''facultyStats''
     = None
   \<and> data (fetchRelevantData (sampleDb \<lparr> getSystemStats := Inl (Error ''connection lost'') \<rparr>)
             (analysisOf ''system_stats'') (Some (userOf ''Admin'' ''Asha''))) = []"
  by (simp add: system_stats_data analysisOf_def sampleDb_def userOf_def)

text \<open>
  C1, amended. For a \<^verbatim>\<open>system_stats\<close> query of a present user: an Admin's bundle
  never holds \<^verbatim>\<open>facultyStats\<close>, and when \<^verbatim>\<open>getSystemStats\<close> succeeds its data is
  exactly the global \<^verbatim>\<open>stats\<close> object; any other user's bundle never holds
  \<^verbatim>\<open>stats\<close>, and when the three allocation lookups succeed its data is exactly
  \<^verbatim>\<open>facultyStats\<close> with the three counts. (A lookup that throws leaves the data
  empty.)
\<close>

theorem C1_stats_by_role:
  assumes "q_intent ar = Str ''system_stats''"
  shows "(u_role u = Str ''Admin'' \<longrightarrow>
            map_of (data (fetchRelevantData db ar (Some u))) ''facultyStats'' = None
          \<and> (\<forall>st. getSystemStats db = Inr st \<longrightarrow>
                data (fetchRelevantData db ar (Some u)) = [(''stats'', StatsObject st)]))
       \<and> (u_role u \<noteq> Str ''Admin'' \<longrightarrow>
            map_of (data (fetchRelevantData db ar (Some u))) ''stats'' = None
          \<and> (\<forall>total upcoming earlier.
                findFacultyAllocations db
                  (allocationFilter \<lparr> af_facultyId := facultyIdOf (Some u) \<rparr>) = Inr total
              \<and> findFacultyAllocations db
                  (allocationFilter \<lparr> af_facultyId := facultyIdOf (Some u),
                                      af_time := noTime \<lparr> future := True \<rparr> \<rparr>) = Inr upcoming
              \<and> findFacultyAllocations db
                  (allocationFilter \<lparr> af_facultyId := facultyIdOf (Some u),
                                      af_time := noTime \<lparr> past := True \<rparr> \<rparr>) = Inr earlier
              \<longrightarrow> data (fetchRelevantData db ar (Some u)) =
                    [(''facultyStats'',
                      FacultyStatsObject \<lparr> totalAllocations = length total,
                                           upcomingAllocations = length upcoming,
                                           pastAllocations = length earlier \<rparr>)]))"
proof (intro conjI impI allI)
  assume "u_role u = Str ''Admin''"
  then show "map_of (data (fetchRelevantData db ar (Some u))) ''facultyStats'' = None"
    using assms by (simp add: system_stats_data split: sum.splits)
next
  fix st assume "u_role u = Str ''Admin''" "getSystemStats db = Inr st"
  then show "data (fetchRelevantData db ar (Some u)) = [(''stats'', StatsObject st)]"
    using assms by (simp add: system_stats_data)
next
  assume "u_role u \<noteq> Str ''Admin''"
  then show "map_of (data (fetchRelevantData db ar (Some u))) ''stats'' = None"
    using assms by (simp add: system_stats_data split: sum.splits)
next
  fix total upcoming earlier
  assume "u_role u \<noteq> Str ''Admin''"
    and "findFacultyAllocations db
                  (allocationFilter \<lparr> af_facultyId := facultyIdOf (Some u) \<rparr>) = Inr total
              \<and> findFacultyAllocations db
                  (allocationFilter \<lparr> af_facultyId := facultyIdOf (Some u),
                                      af_time := noTime \<lparr> future := True \<rparr> \<rparr>) = Inr upcoming
              \<and> findFacultyAllocations db
                  (allocationFilter \<lparr> af_facultyId := facultyIdOf (Some u),
                                      af_time := noTime \<lparr> past := True \<rparr> \<rparr>) = Inr earlier"
  then show "data (fetchRelevantData db ar (Some u)) =
                    [(''facultyStats'',
                      FacultyStatsObject \<lparr> totalAllocations = length total,
                                           upcomingAllocations = length upcoming,
                                           pastAllocations = length earlier \<rparr>)]"
    using assms by (simp add: system_stats_data personalStats_def)
qed

theorem C1_stats_by_role_witness:
  "data (fetchRelevantData sampleDb (analysisOf ''system_stats'') (Some (userOf ''Admin'' ''Asha'')))
     = [(''stats'', StatsObject sampleStats)]
   \<and> data (fetchRelevantData sampleDb (analysisOf ''system_stats'') (Some (userOf ''Faculty'' ''Dr. Rao'')))
     = [(''facultyStats'',
         FacultyStatsObject \<lparr> totalAllocations = 1, upcomingAllocations = 1, pastAllocations = 0 \<rparr>)]"
  using C1_stats_by_role [of "analysisOf ''system_stats''" "userOf ''Admin'' ''Asha''" sampleDb]
        C1_stats_by_role [of "analysisOf ''system_stats''" "userOf ''Faculty'' ''Dr. Rao''" sampleDb]
  by (simp add: analysisOf_def userOf_def sampleDb_def noTime_def allocationFilter_def)

lemma formatSection_empty:
  "isEmptyData (snd entry) \<Longrightarrow> formatSection fmt entry = []"
  by (simp add: formatSection_def Let_def)

lemma concat_sections_filter:
  "concat (map (formatSection fmt) (filter (\<lambda>entry. \<not> isEmptyData (snd entry)) entries))
     = concat (map (formatSection fmt) entries)"
  by (induction entries) (simp_all add: formatSection_empty)

lemma format_skips_empty:
  "formatContextData fmt (c \<lparr> data := filter (\<lambda>entry. \<not> isEmptyData (snd entry)) (data c) \<rparr>)
     = formatContextData fmt c"
  by (simp add: formatContextData_def concat_sections_filter)

text \<open>
  C5, as stated, fails: the router stores a lookup's result under its key whatever its
  length, so an \<^verbatim>\<open>exam_info\<close> query that matches no exam leaves the key
  \<^verbatim>\<open>exams\<close> with the value \<^verbatim>\<open>[]\<close> in the bundle.
\<close>

theorem C5_empty_dataset_counterexample:
  "map_of (data (fetchRelevantData sampleDb (analysisOf ''exam_info'') None)) ''exams''
     = Some (ExamList [])"
  by (simp add: fetchRelevantData_def fetchSwitch_def Let_def orElse_def analysisOf_def sampleDb_def
        store_def mapResult_def andThen_def whenever_def facultyIdOf_def)

text \<open>
  C5, amended. Empty datasets are left out by the formatter, not by the router: the text
  formatted from the router's bundle is the text formatted from that bundle without its
  empty-valued keys.
\<close>

theorem C5_empty_datasets_skipped_by_formatter:
  "formatContextData fmt (fetchRelevantData db analysisResult usr) =
   formatContextData fmt
     ((fetchRelevantData db analysisResult usr)
        \<lparr> data := filter (\<lambda>entry. \<not> isEmptyData (snd entry))
                          (data (fetchRelevantData db analysisResult usr)) \<rparr>)"
  by (rule format_skips_empty [symmetric])

lemma upper_facultyRoomAllocations:
  "toUpperCase ''facultyRoomAllocations'' = ''FACULTYROOMALLOCATIONS''"
  by (simp add: toUpperCase_def toUpperChar_def)

lemma formatSection_facultyRoomAllocations:
  "allocs \<noteq> [] \<Longrightarrow>
   formatSection fmt (''facultyRoomAllocations'', AllocationList allocs)
     = ''FACULTYROOMALLOCATIONS:\<newline>''"
  unfolding formatSection_def Let_def
  by (simp add: upper_facultyRoomAllocations)

text \<open>
  C10. A non-empty \<^verbatim>\<open>facultyRoomAllocations\<close> list contributes exactly its header
  line to the formatted context: what precedes the header is the text of the keys before
  it, what follows is the text of the keys after it, and no allocation of the list is
  rendered.
\<close>

theorem C10_facultyRoomAllocations_header_only:
  assumes "data c = before @ [(''facultyRoomAllocations'', AllocationList allocs)] @ after"
    and "allocs \<noteq> []"
  shows "formatContextData fmt c =
           formatContextData fmt (c \<lparr> data := before \<rparr>)
           @ ''FACULTYROOMALLOCATIONS:\<newline>''
           @ concat (map (formatSection fmt) after)"
  using assms by (simp add: formatContextData_def formatSection_facultyRoomAllocations)

theorem C10_facultyRoomAllocations_header_only_witness:
  "formatContextData (\<lambda>d. ''1/1/2025'') (fetchRelevantData sampleDb roomQuery None) =
     ''CONTEXT INFORMATION FOR QUERY:\<newline>Intent: room_info\<newline>\<newline>FACULTYROOMALLOCATIONS:\<newline>''"
proof -
  have d: "data (fetchRelevantData sampleDb roomQuery None) =
      [(''rooms'', RoomList []), (''roomAllocations'', StudentAllocationList [])]
      @ [(''facultyRoomAllocations'', AllocationList [sampleAllocation])] @ []"
    by (simp add: fetchRelevantData_def fetchSwitch_def Let_def orElse_def analysisOf_def sampleDb_def
        store_def mapResult_def andThen_def whenever_def facultyIdOf_def roomQuery_def
        timeParamsOf_def noTime_def studentFilter_def allocationFilter_def)
  have s: "sampleAllocation # [] \<noteq> []" by simp
  show ?thesis
    using C10_facultyRoomAllocations_header_only [OF d s, of "\<lambda>d. ''1/1/2025''"]
    by (simp add: formatContextData_def formatSection_def fetchRelevantData_def orElse_def
          roomQuery_def analysisOf_def Let_def)
qed

text \<open>
  Further facts about the router. An intent outside the six named ones reaches the
  \<^verbatim>\<open>default\<close> branch, which throws before any lookup: the bundle's data stays empty.
\<close>

lemma default_branch_leaves_data_empty:
  assumes "orElse (q_intent analysisResult) (Str ''general_query'')
             \<notin> set [Str ''exam_info'', Str ''faculty_allocation'', Str ''room_info'',
                     Str ''student_allocation'', Str ''faculty_info'', Str ''system_stats'']"
  shows "data (fetchRelevantData db analysisResult usr) = []"
  using assms by (simp add: fetchRelevantData_def fetchSwitch_def Let_def)

lemma default_branch_leaves_data_empty_example:
  "data (fetchRelevantData sampleDb (analysisOf ''general'') (Some (userOf ''Faculty'' ''Dr. Rao''))) = []"
  using default_branch_leaves_data_empty
          [of "analysisOf ''general''" sampleDb "Some (userOf ''Faculty'' ''Dr. Rao'')"]
  by (simp add: analysisOf_def orElse_def)

text \<open>
  With a room number and no Faculty caller, the \<^verbatim>\<open>room_info\<close> branch stores the rooms,
  the student allocations and the faculty allocations of the room, in this order.
\<close>

lemma room_number_fetches_facultyRoomAllocations:
  assumes "q_intent analysisResult = Str ''room_info''"
    and "truthy (q_room_number analysisResult)"
    and "\<not> truthy (facultyIdOf usr)"
    and "findRooms db \<lparr> rf_building = q_building analysisResult,
                         rf_roomNumber = q_room_number analysisResult,
                         rf_floor = q_floor analysisResult \<rparr> = Inr found"
    and "findStudentAllocations db
           (studentFilter \<lparr> tf_roomNumber := q_room_number analysisResult,
                            tf_date := q_date analysisResult,
                            tf_time := timeParamsOf analysisResult \<rparr>) = Inr seated"
    and "findFacultyAllocations db
           (allocationFilter \<lparr> af_roomNumber := q_room_number analysisResult,
                               af_date := q_date analysisResult,
                               af_time := timeParamsOf analysisResult \<rparr>) = Inr duties"
  shows "data (fetchRelevantData db analysisResult usr) =
           [(''rooms'', RoomList found), (''roomAllocations'', StudentAllocationList seated),
            (''facultyRoomAllocations'', AllocationList duties)]"
  using assms
  by (simp add: fetchRelevantData_def fetchSwitch_def Let_def orElse_def store_def mapResult_def
        andThen_def whenever_def)

lemma room_number_fetches_facultyRoomAllocations_example:
  "data (fetchRelevantData sampleDb roomQuery None) =
     [(''rooms'', RoomList []), (''roomAllocations'', StudentAllocationList []),
      (''facultyRoomAllocations'', AllocationList [sampleAllocation])]"
  using room_number_fetches_facultyRoomAllocations
          [of roomQuery None sampleDb "[]" "[]" "[sampleAllocation]"]
  by (simp add: roomQuery_def analysisOf_def sampleDb_def facultyIdOf_def timeParamsOf_def
        noTime_def studentFilter_def allocationFilter_def)

text \<open>
  A lookup that throws leaves what the earlier lookups of its branch stored, and stops
  the branch.
\<close>

lemma failed_lookup_keeps_earlier_data:
  assumes "q_intent analysisResult = Str ''exam_info''"
    and "truthy (q_subject_name analysisResult) \<or> truthy (q_subject_code analysisResult)"
    and "findExams db \<lparr> xf_name = q_exam_name analysisResult,
                         xf_year = q_exam_year analysisResult,
                         xf_semester = q_semester analysisResult \<rparr> = Inr found"
    and "findSubjects db \<lparr> sf_name = q_subject_name analysisResult,
                            sf_subjectCode = q_subject_code analysisResult,
                            sf_semester = q_semester analysisResult,
                            sf_date = q_date analysisResult \<rparr> = Inl err"
  shows "data (fetchRelevantData db analysisResult usr) = [(''exams'', ExamList found)]"
  using assms
  by (simp add: fetchRelevantData_def fetchSwitch_def Let_def orElse_def store_def mapResult_def
        andThen_def whenever_def)

lemma failed_lookup_keeps_earlier_data_example:
  "data (fetchRelevantData (sampleDb \<lparr> findSubjects := (\<lambda>f. Inl (Error ''connection lost'')) \<rparr>)
           ((analysisOf ''exam_info'') \<lparr> q_subject_code := Str ''MA101'' \<rparr>)
           (Some (userOf ''Faculty'' ''Dr. Rao'')))
     = [(''exams'', ExamList [])]"
  using failed_lookup_keeps_earlier_data
          [of "(analysisOf ''exam_info'') \<lparr> q_subject_code := Str ''MA101'' \<rparr>"
              "sampleDb \<lparr> findSubjects := (\<lambda>f. Inl (Error ''connection lost'')) \<rparr>"
              "[]" "Error ''connection lost''" "Some (userOf ''Faculty'' ''Dr. Rao'')"]
  by (simp add: analysisOf_def sampleDb_def)

section \<open>Properties of the entity summarizer\<close>

lemma in_join_sublist: "x \<in> set xs \<Longrightarrow> sublist x (join sep xs)"
proof (induction sep xs rule: join.induct)
  case (1 sep)
  then show ?case by simp
next
  case (2 sep y)
  then show ?case by simp
next
  case (3 sep a b rest)
  show ?case
  proof (cases "x = a")
    case True
    then show ?thesis by simp
  next
    case False
    with 3 have "sublist x (join sep (b # rest))" by simp
    then obtain ps ss where "join sep (b # rest) = ps @ x @ ss" by (auto simp: sublist_def)
    then have "join sep (a # b # rest) = (a @ sep @ ps) @ x @ ss" by simp
    then show ?thesis unfolding sublist_def by blast
  qed
qed

lemma sublist_joined:
  assumes "x \<in> set xs" and "text = a @ join sep (map f xs) @ b"
  shows "sublist (f x) text"
proof -
  have "sublist (f x) (join sep (map f xs))"
    using assms(1) by (intro in_join_sublist) simp
  moreover have "sublist (join sep (map f xs)) text"
    unfolding assms(2) by (rule sublist_appendI)
  ultimately show ?thesis by (rule sublist_order.order.trans)
qed

text \<open>
  C6, as stated, fails: the text builders join every item of a list and put every field
  into the template as it is. An exam with four faculty members is summarized with all
  four and no ellipsis, and the member without a designation is rendered with the text
  \<^verbatim>\<open>undefined\<close>, not with a placeholder.
\<close>

theorem C6_untruncated_counterexample:
  "buildExamText plainDate midterm [] fourFaculties [] =
     Inr ''Exam: Midterm (Year: 2025)\<newline>- Semesters: Sem 3 (60 students)\<newline>- Subjects:\<newline>  - \<newline>- Faculties:\<newline>  - Asha (Professor)\<newline>  - Bala (undefined)\<newline>  - Chitra (Lecturer)\<newline>  - Dev (Lecturer)\<newline>- Rooms:\<newline>  - ''"
  by (simp add: buildExamText_def midterm_def fourFaculties_def facultyNamed_def facultyLine_def
        semesterLine_def showInt_def showNat.simps)

lemma join_closed_form:
  "join sep xs = (case xs of [] \<Rightarrow> [] | x # rest \<Rightarrow> x @ concat (map (\<lambda>y. sep @ y) rest))"
  by (induction sep xs rule: join.induct) simp_all

lemma subjectLine_fun:
  "subjectLine localeDate =
     (\<lambda>s. toStr (sd_name s) @ '' ('' @ toStr (sd_subjectCode s) @ '') on ''
            @ formatDate localeDate (sd_date s) @ '' '' @ toStr (sd_startTime s) @ ''-''
            @ toStr (sd_endTime s))"
  by (rule ext) (simp add: subjectLine_def)

lemma facultyLine_fun:
  "facultyLine = (\<lambda>f. toStr (fd_name f) @ '' ('' @ toStr (fd_designation f) @ '')'')"
  by (rule ext) (simp add: facultyLine_def)

lemma roomLine_fun:
  "roomLine = (\<lambda>r. toStr (rd_building r) @ '' Room '' @ toStr (rd_roomNumber r)
                    @ '' (Capacity: '' @ toStr (rd_capacity r) @ '')'')"
  by (rule ext) (simp add: roomLine_def)

lemma semesterLine_fun:
  "semesterLine = (\<lambda>s. ''Sem '' @ toStr (se_semester s) @ '' ('' @ toStr (se_totalStudents s)
                        @ '' students)'')"
  by (rule ext) (simp add: semesterLine_def)

lemma roomSubjectLine_fun:
  "roomSubjectLine = (\<lambda>s. toStr (sd_name s) @ '' (Sem '' @ toStr (sd_semester s) @ '')'')"
  by (rule ext) (simp add: roomSubjectLine_def)

text \<open>
  C6, amended. The text of each builder is exactly its template, filled with every item
  of every joined list in order (the semesters, subjects, faculty members and rooms of an
  exam, the subjects of a room allocation): \<open>join\<close> puts every element between the
  separators, nothing is cut and no ellipsis is added. No field is defaulted: a field is
  rendered by JavaScript's string conversion, a missing one as \<^verbatim>\<open>undefined\<close>, and a
  date by \<^verbatim>\<open>formatDate\<close>, a missing one as \<^verbatim>\<open>Invalid Date\<close>. The one placeholder
  is \<^verbatim>\<open>No subjects specified\<close> for a room allocation summarized with no subjects.
  The allocation builder always returns; the exam builder throws exactly when the exam
  has no \<^verbatim>\<open>semesters\<close> array and the room-allocation builder exactly when the room
  allocation has no \<^verbatim>\<open>students\<close> array.
\<close>

theorem C6_summarizer_text:
  "buildExamText localeDate exam subjects faculties rooms =
     (case ed_semesters exam of
        None \<Rightarrow> Inl (TypeError ''Cannot read properties of undefined (reading 'map')'')
      | Some semesters \<Rightarrow>
          Inr (''Exam: '' @ toStr (ed_name exam) @ '' (Year: '' @ toStr (ed_year exam) @ '')\<newline>'' @
               ''- Semesters: '' @
                 join '', ''
                   (map (\<lambda>s. ''Sem '' @ toStr (se_semester s) @ '' ('' @ toStr (se_totalStudents s)
                              @ '' students)'') semesters) @ ''\<newline>'' @
               ''- Subjects:\<newline>  - '' @
                 join ''\<newline>  - ''
                   (map (\<lambda>s. toStr (sd_name s) @ '' ('' @ toStr (sd_subjectCode s) @ '') on ''
                              @ formatDate localeDate (sd_date s) @ '' '' @ toStr (sd_startTime s)
                              @ ''-'' @ toStr (sd_endTime s)) subjects) @ ''\<newline>'' @
               ''- Faculties:\<newline>  - '' @
                 join ''\<newline>  - ''
                   (map (\<lambda>f. toStr (fd_name f) @ '' ('' @ toStr (fd_designation f) @ '')'')
                      faculties) @ ''\<newline>'' @
               ''- Rooms:\<newline>  - '' @
                 join ''\<newline>  - ''
                   (map (\<lambda>r. toStr (rd_building r) @ '' Room '' @ toStr (rd_roomNumber r)
                              @ '' (Capacity: '' @ toStr (rd_capacity r) @ '')'') rooms)))
   \<and> buildAllocationText localeDate alloc exam subject room faculty =
       ''Allocation for '' @ toStr (ed_name exam) @ '':\<newline>'' @
       ''- Faculty: '' @ toStr (fd_name faculty) @ '' ('' @ toStr (fd_designation faculty) @ '')\<newline>'' @
       ''- Subject: '' @ toStr (sd_name subject) @ '' (Sem '' @ toStr (sd_semester subject) @ '')\<newline>'' @
       ''- Room: '' @ toStr (rd_building room) @ '' Room '' @ toStr (rd_roomNumber room) @ ''\<newline>'' @
       ''- Date: '' @ formatDate localeDate (ad_date alloc) @ ''\<newline>'' @
       ''- Time: '' @ toStr (ad_startTime alloc) @ '' to '' @ toStr (ad_endTime alloc)
   \<and> buildRoomAllocationText localeDate roomAlloc exam room roomSubjects =
       (case ra_students roomAlloc of
          None \<Rightarrow> Inl (TypeError ''Cannot read properties of undefined (reading 'length')'')
        | Some students \<Rightarrow>
            Inr (''Room Allocation for '' @ toStr (ed_name exam) @ '':\<newline>'' @
                 ''- Room: '' @ toStr (rd_building room) @ '' Room '' @ toStr (rd_roomNumber room)
                   @ '' (Capacity: '' @ toStr (rd_capacity room) @ '')\<newline>'' @
                 ''- Subjects: '' @
                   (if roomSubjects = [] then ''No subjects specified''
                    else join '' and ''
                           (map (\<lambda>s. toStr (sd_name s) @ '' (Sem '' @ toStr (sd_semester s) @ '')'')
                              roomSubjects)) @ ''\<newline>'' @
                 ''- Students: '' @ showNat (length students) @ '' students\<newline>'' @
                 ''- Date: '' @ formatDate localeDate (ra_date roomAlloc) @ ''\<newline>'' @
                 ''- Time: '' @ toStr (ra_startTime roomAlloc) @ '' to ''
                   @ toStr (ra_endTime roomAlloc)))
   \<and> join sep items =
       (case items of [] \<Rightarrow> [] | x # rest \<Rightarrow> x @ concat (map (\<lambda>y. sep @ y) rest))
   \<and> toStr Undefined = ''undefined''
   \<and> toStr Null = ''null''
   \<and> toStr (Str text') = text'
   \<and> formatDate localeDate Undefined = ''Invalid Date''"
proof (intro conjI)
  show "buildExamText localeDate exam subjects faculties rooms =
     (case ed_semesters exam of
        None \<Rightarrow> Inl (TypeError ''Cannot read properties of undefined (reading 'map')'')
      | Some semesters \<Rightarrow>
          Inr (''Exam: '' @ toStr (ed_name exam) @ '' (Year: '' @ toStr (ed_year exam) @ '')\<newline>'' @
               ''- Semesters: '' @
                 join '', ''
                   (map (\<lambda>s. ''Sem '' @ toStr (se_semester s) @ '' ('' @ toStr (se_totalStudents s)
                              @ '' students)'') semesters) @ ''\<newline>'' @
               ''- Subjects:\<newline>  - '' @
                 join ''\<newline>  - ''
                   (map (\<lambda>s. toStr (sd_name s) @ '' ('' @ toStr (sd_subjectCode s) @ '') on ''
                              @ formatDate localeDate (sd_date s) @ '' '' @ toStr (sd_startTime s)
                              @ ''-'' @ toStr (sd_endTime s)) subjects) @ ''\<newline>'' @
               ''- Faculties:\<newline>  - '' @
                 join ''\<newline>  - ''
                   (map (\<lambda>f. toStr (fd_name f) @ '' ('' @ toStr (fd_designation f) @ '')'')
                      faculties) @ ''\<newline>'' @
               ''- Rooms:\<newline>  - '' @
                 join ''\<newline>  - ''
                   (map (\<lambda>r. toStr (rd_building r) @ '' Room '' @ toStr (rd_roomNumber r)
                              @ '' (Capacity: '' @ toStr (rd_capacity r) @ '')'') rooms)))"
    unfolding buildExamText_def Let_def subjectLine_fun facultyLine_fun roomLine_fun
      semesterLine_fun
    by (simp split: option.splits)
next
  show "buildAllocationText localeDate alloc exam subject room faculty =
       ''Allocation for '' @ toStr (ed_name exam) @ '':\<newline>'' @
       ''- Faculty: '' @ toStr (fd_name faculty) @ '' ('' @ toStr (fd_designation faculty) @ '')\<newline>'' @
       ''- Subject: '' @ toStr (sd_name subject) @ '' (Sem '' @ toStr (sd_semester subject) @ '')\<newline>'' @
       ''- Room: '' @ toStr (rd_building room) @ '' Room '' @ toStr (rd_roomNumber room) @ ''\<newline>'' @
       ''- Date: '' @ formatDate localeDate (ad_date alloc) @ ''\<newline>'' @
       ''- Time: '' @ toStr (ad_startTime alloc) @ '' to '' @ toStr (ad_endTime alloc)"
    by (simp add: buildAllocationText_def)
next
  show "buildRoomAllocationText localeDate roomAlloc exam room roomSubjects =
       (case ra_students roomAlloc of
          None \<Rightarrow> Inl (TypeError ''Cannot read properties of undefined (reading 'length')'')
        | Some students \<Rightarrow>
            Inr (''Room Allocation for '' @ toStr (ed_name exam) @ '':\<newline>'' @
                 ''- Room: '' @ toStr (rd_building room) @ '' Room '' @ toStr (rd_roomNumber room)
                   @ '' (Capacity: '' @ toStr (rd_capacity room) @ '')\<newline>'' @
                 ''- Subjects: '' @
                   (if roomSubjects = [] then ''No subjects specified''
                    else join '' and ''
                           (map (\<lambda>s. toStr (sd_name s) @ '' (Sem '' @ toStr (sd_semester s) @ '')'')
                              roomSubjects)) @ ''\<newline>'' @
                 ''- Students: '' @ showNat (length students) @ '' students\<newline>'' @
                 ''- Date: '' @ formatDate localeDate (ra_date roomAlloc) @ ''\<newline>'' @
                 ''- Time: '' @ toStr (ra_startTime roomAlloc) @ '' to ''
                   @ toStr (ra_endTime roomAlloc)))"
    unfolding buildRoomAllocationText_def Let_def roomSubjectLine_fun
    by (simp split: option.splits)
next
  show "join sep items =
       (case items of [] \<Rightarrow> [] | x # rest \<Rightarrow> x @ concat (map (\<lambda>y. sep @ y) rest))"
    by (rule join_closed_form)
qed (simp_all add: formatDate_def)

text \<open>
  The amended C6 at an exam with four semesters, subjects, faculty members and rooms, one
  subject without a date and one faculty member without a designation; at an allocation
  without a date; at a room allocation with no subjects and with four; and at an exam
  without semesters and a room allocation without students.
\<close>

theorem C6_summarizer_text_witness:
  "buildExamText plainDate finals fourSubjects fourFaculties fourRooms =
     Inr ''Exam: Finals (Year: 2025)\<newline>- Semesters: Sem 1 (60 students), Sem 3 (55 students), Sem 5 (50 students), Sem 7 (undefined students)\<newline>- Subjects:\<newline>  - Algebra (C1) on 2025-03-01 09:00-undefined\<newline>  - Biology (C2) on Invalid Date 09:00-undefined\<newline>  - Chemistry (C3) on 2025-03-03 09:00-undefined\<newline>  - Drawing (C4) on 2025-03-04 09:00-undefined\<newline>- Faculties:\<newline>  - Asha (Professor)\<newline>  - Bala (undefined)\<newline>  - Chitra (Lecturer)\<newline>  - Dev (Lecturer)\<newline>- Rooms:\<newline>  - Main Room 101 (Capacity: 40)\<newline>  - Main Room 102 (Capacity: 40)\<newline>  - Main Room 103 (Capacity: 40)\<newline>  - Main Room 104 (Capacity: 40)''
   \<and> buildExamText plainDate (finals \<lparr> ed_semesters := None \<rparr>) fourSubjects fourFaculties fourRooms
       = Inl (TypeError ''Cannot read properties of undefined (reading 'map')'')
   \<and> buildAllocationText plainDate undatedAllocation finals subjectS1 roomR1
         (facultyNamed ''f2'' ''Bala'' Undefined)
       = ''Allocation for Finals:\<newline>- Faculty: Bala (undefined)\<newline>- Subject: Algebra (Sem 3)\<newline>- Room: Main Room 101\<newline>- Date: Invalid Date\<newline>- Time: 09:00 to 12:00''
   \<and> buildRoomAllocationText plainDate emptyRoomAllocation finals roomR1 []
       = Inr ''Room Allocation for Finals:\<newline>- Room: Main Room 101 (Capacity: 40)\<newline>- Subjects: No subjects specified\<newline>- Students: 1 students\<newline>- Date: 2025-03-01\<newline>- Time: 09:00 to 12:00''
   \<and> buildRoomAllocationText plainDate emptyRoomAllocation finals roomR1 fourSubjects
       = Inr ''Room Allocation for Finals:\<newline>- Room: Main Room 101 (Capacity: 40)\<newline>- Subjects: Algebra (Sem 3) and Biology (Sem 3) and Chemistry (Sem 3) and Drawing (Sem 3)\<newline>- Students: 1 students\<newline>- Date: 2025-03-01\<newline>- Time: 09:00 to 12:00''
   \<and> buildRoomAllocationText plainDate (emptyRoomAllocation \<lparr> ra_students := None \<rparr>) finals roomR1
         fourSubjects
       = Inl (TypeError ''Cannot read properties of undefined (reading 'length')'')"
  using C6_summarizer_text
          [where localeDate = plainDate and exam = finals and subjects = fourSubjects
             and faculties = fourFaculties and rooms = fourRooms and alloc = undatedAllocation
             and subject = subjectS1 and room = roomR1
             and faculty = "facultyNamed ''f2'' ''Bala'' Undefined"
             and roomAlloc = emptyRoomAllocation and roomSubjects = "[]"
             and sep = "[]" and items = "[]" and text' = "[]"]
        C6_summarizer_text
          [where localeDate = plainDate and exam = "finals \<lparr> ed_semesters := None \<rparr>"
             and subjects = fourSubjects
             and faculties = fourFaculties and rooms = fourRooms and alloc = undatedAllocation
             and subject = subjectS1 and room = roomR1
             and faculty = "facultyNamed ''f2'' ''Bala'' Undefined"
             and roomAlloc = emptyRoomAllocation and roomSubjects = fourSubjects
             and sep = "[]" and items = "[]" and text' = "[]"]
        C6_summarizer_text
          [where localeDate = plainDate and exam = finals and subjects = fourSubjects
             and faculties = fourFaculties and rooms = fourRooms and alloc = undatedAllocation
             and subject = subjectS1 and room = roomR1
             and faculty = "facultyNamed ''f2'' ''Bala'' Undefined"
             and roomAlloc = "emptyRoomAllocation \<lparr> ra_students := None \<rparr>"
             and roomSubjects = fourSubjects
             and sep = "[]" and items = "[]" and text' = "[]"]
        C6_summarizer_text
          [where localeDate = plainDate and exam = finals and subjects = fourSubjects
             and faculties = fourFaculties and rooms = fourRooms and alloc = undatedAllocation
             and subject = subjectS1 and room = roomR1
             and faculty = "facultyNamed ''f2'' ''Bala'' Undefined"
             and roomAlloc = emptyRoomAllocation and roomSubjects = fourSubjects
             and sep = "[]" and items = "[]" and text' = "[]"]
  by (simp add: finals_def fourSubjects_def subjectNamed_def fourFaculties_def facultyNamed_def
        fourRooms_def roomNumbered_def undatedAllocation_def allocationOf_def subjectS1_def
        roomR1_def emptyRoomAllocation_def plainDate_def formatDate_def showInt_def
        showNat.simps)

section \<open>Properties of the cache rebuild\<close>

text \<open>
  C2 on the code. Two allocations are rebuilt, the first referencing an exam that was
  deleted (its populated reference is \<^verbatim>\<open>null\<close>). Its callback throws at
  \<^verbatim>\<open>alloc.examId._id\<close>, before the test that would skip it, and the rebuild answers
  with the failure instead of skipping the record.
\<close>

theorem C2_deleted_exam_fails_rebuild:
  "fst (cacheData plainDate steadyEmbedding (Some [])
          (Inr (sourceWith [allocationOf ''a1'' None, allocationOf ''a2'' (Some ''e1'')])))
     = ServerError ''Cache failed: Cannot read properties of null (reading '_id')''"
  by code_simp

text \<open>
  The test that skips an allocation is reached when all four references are populated;
  it then skips the allocation when one of the ids is missing from its lookup map (the
  faculty map holds the users of role Faculty only).
\<close>

lemma unknown_reference_is_skipped:
  assumes "ad_examId alloc = Some examId" and "ad_subjectId alloc = Some subjectId"
    and "ad_roomId alloc = Some roomId" and "ad_facultyId alloc = Some facultyId"
    and "mapById ed_id (src_exams src) examId = None
         \<or> mapById sd_id (src_subjects src) subjectId = None
         \<or> mapById rd_id (src_rooms src) roomId = None
         \<or> mapById fd_id (src_faculties src) facultyId = None"
  shows "allocInsert localeDate post_embeddings src alloc = Skipped"
  using assms
  by (auto simp: allocInsert_def idOf_def Let_def split: option.splits)

lemma unknown_reference_is_skipped_example:
  "allocInsert plainDate steadyEmbedding
     ((sourceWith [allocationOf ''a1'' (Some ''e1'')]) \<lparr> src_faculties := [lecturer] \<rparr>)
     (allocationOf ''a1'' (Some ''e1'')) = Skipped"
  by (rule unknown_reference_is_skipped
            [where examId = "''e1''" and subjectId = "''s1''" and roomId = "''r1''"
               and facultyId = "''f1''"])
     (simp_all add: allocationOf_def sourceWith_def mapById_def lecturer_def facultyNamed_def)





















section \<open>Properties of the admin chatbot\<close>

lemma groups_partition:
  "mset (contentsOfType ''exam'' rs @ contentsOfType ''allocation'' rs
         @ contentsOfType ''room_allocation'' rs)
     = mset (map (\<lambda>r. doc_content (hit_document r)) rs)"
proof (induction rs)
  case Nil
  then show ?case by (simp add: contentsOfType_def)
next
  case (Cons r rs)
  then show ?case
    by (cases "doc_metadata (hit_document r)") (simp_all add: contentsOfType_def)
qed

lemma type_of_cases:
  "type_of m = ''exam'' \<or> type_of m = ''allocation'' \<or> type_of m = ''room_allocation''"
  by (cases m) simp_all

lemma contextSection_contains:
  assumes "c \<in> set contexts"
  shows "sublist c (contextSection title contexts)"
proof -
  have "length contexts > 0" using assms by (cases contexts) auto
  then have "contextSection title contexts
               = (title @ '':\<newline>'') @ join ''\<newline>\<newline>'' (map (\<lambda>x. x) contexts) @ ''\<newline>\<newline>''"
    by (simp add: contextSection_def)
  from sublist_joined [OF assms this] show ?thesis .
qed

lemma buildContext_contains:
  assumes "r \<in> set rs"
  shows "sublist (doc_content (hit_document r)) (buildContext rs)"
proof -
  let ?c = "doc_content (hit_document r)"
  define E where "E = contextSection ''EXAMS'' (contentsOfType ''exam'' rs)"
  define A where "A = contextSection ''FACULTY ALLOCATIONS'' (contentsOfType ''allocation'' rs)"
  define R where "R = contextSection ''ROOM ALLOCATIONS'' (contentsOfType ''room_allocation'' rs)"
  have ctx: "buildContext rs = ''Exam System Information:\<newline>\<newline>'' @ E @ A @ R"
    by (simp add: buildContext_def E_def A_def R_def)
  have inE: "sublist E (buildContext rs)" unfolding ctx by (rule sublist_appendI)
  have inA: "sublist A (buildContext rs)"
    using sublist_appendI [of A "''Exam System Information:\<newline>\<newline>'' @ E" R] by (simp add: ctx)
  have inR: "sublist R (buildContext rs)"
    using sublist_append_leftI [of R "''Exam System Information:\<newline>\<newline>'' @ E @ A"]
    by (simp add: ctx)
  consider "type_of (doc_metadata (hit_document r)) = ''exam''"
    | "type_of (doc_metadata (hit_document r)) = ''allocation''"
    | "type_of (doc_metadata (hit_document r)) = ''room_allocation''"
    using type_of_cases by blast
  then show ?thesis
  proof cases
    case 1
    then have "?c \<in> set (contentsOfType ''exam'' rs)"
      using assms by (auto simp: contentsOfType_def)
    then have "sublist ?c E" unfolding E_def by (rule contextSection_contains)
    then show ?thesis using inE by (rule sublist_order.order.trans)
  next
    case 2
    then have "?c \<in> set (contentsOfType ''allocation'' rs)"
      using assms by (auto simp: contentsOfType_def)
    then have "sublist ?c A" unfolding A_def by (rule contextSection_contains)
    then show ?thesis using inA by (rule sublist_order.order.trans)
  next
    case 3
    then have "?c \<in> set (contentsOfType ''room_allocation'' rs)"
      using assms by (auto simp: contentsOfType_def)
    then have "sublist ?c R" unfolding R_def by (rule contextSection_contains)
    then show ?thesis using inR by (rule sublist_order.order.trans)
  qed
qed

text \<open>
  C4. For a query whose embedding and vector search succeeded with the candidates
  \<open>results\<close>: the candidates kept are exactly those with similarity at least 0.3.
  The context is the heading followed by one group for each of the three values of
  \<^verbatim>\<open>metadata.type\<close>, in the order \<^verbatim>\<open>EXAMS\<close>, \<^verbatim>\<open>FACULTY ALLOCATIONS\<close>,
  \<^verbatim>\<open>ROOM ALLOCATIONS\<close>; a group holds the contents of the kept candidates of its type,
  in their order, under its title, and is left out when it has none. So every kept
  content is in exactly one group and occurs in the context. When no candidate is kept
  the answer is the fixed text and no chat-completion call is made. Otherwise exactly one
  call is made: its system message is the fixed instructions followed by that context,
  its user message is the query, and the answer is built from the call's result.
\<close>

theorem C4_relevance_filter:
  assumes "truthy query"
    and "post_embeddings query = Inr queryEmbedding"
    and "search \<lparr> sort_vector = queryEmbedding, limit = 7, includeSimilarity = True,
                  minSimilarity = 0.25 \<rparr> = Inr results"
  shows
   "(let kept = filter (\<lambda>r. 3 / 10 \<le> similarity r) results;
         contentsOf = (\<lambda>kind. map (\<lambda>r. doc_content (hit_document r))
                          (filter (\<lambda>r. type_of (doc_metadata (hit_document r)) = kind) kept));
         group = (\<lambda>title contents.
                    if contents = [] then []
                    else title @ '':\<newline>'' @ join ''\<newline>\<newline>'' contents @ ''\<newline>\<newline>'');
         context' = ''Exam System Information:\<newline>\<newline>'' @
                    group ''EXAMS'' (contentsOf ''exam'') @
                    group ''FACULTY ALLOCATIONS'' (contentsOf ''allocation'') @
                    group ''ROOM ALLOCATIONS'' (contentsOf ''room_allocation'');
         call = \<lparr> url = ''http://localhost:1234/v1/chat/completions'',
                  body = \<lparr> model = ''llama-3.2-1b-instruct'',
                           messages =
                             [\<lparr> m_role = ''system'',
                                m_content =
                                  ''You are an exam administration assistant. Strictly use ONLY the following information.\<newline>'' @
                                  ''If data is missing, respond with \"No data available\".\<newline>\<newline>'' @
                                  ''RULES:\<newline>'' @
                                  ''1. Be specific about dates, times, rooms, and faculty\<newline>'' @
                                  ''2. For student counts, provide exact numbers\<newline>'' @
                                  ''3. For room allocations, mention building and room number\<newline>'' @
                                  ''4. Never invent information\<newline>\<newline>'' @
                                  context' \<rparr>,
                              \<lparr> m_role = ''user'', m_content = toStr query \<rparr>],
                           temperature = 1 / 10,
                           max_tokens = 600 \<rparr>,
                  timeout = None \<rparr>
     in relevant results = kept
      \<and> buildContext kept = context'
      \<and> mset (contentsOf ''exam'' @ contentsOf ''allocation'' @ contentsOf ''room_allocation'')
          = mset (map (\<lambda>r. doc_content (hit_document r)) kept)
      \<and> (\<forall>r \<in> set kept. sublist (doc_content (hit_document r)) context')
      \<and> (kept = [] \<longrightarrow>
            admin post_embeddings (Some search) post query
              = (SuccessAnswer ''No relevant exam data available for this query.'' [] None, []))
      \<and> (kept \<noteq> [] \<longrightarrow>
            admin post_embeddings (Some search) post query
              = (case post call of
                   Inl err \<Rightarrow> ServerError (''Chatbot failed: '' @ message_of err)
                 | Inr [] \<Rightarrow>
                     ServerError
                       ''Chatbot failed: Cannot read properties of undefined (reading 'message')''
                 | Inr (content # others) \<Rightarrow>
                     SuccessAnswer content
                       (map (\<lambda>r. type_of (doc_metadata (hit_document r))) kept)
                       (Some (similarity (hd kept))),
                 [call])))"
proof -
  define kept where "kept = filter (\<lambda>r. 3 / 10 \<le> similarity r) results"
  have rel: "relevant results = kept" by (simp add: relevant_def kept_def)
  have cot: "\<And>kind. contentsOfType kind kept =
               map (\<lambda>r. doc_content (hit_document r))
                 (filter (\<lambda>r. type_of (doc_metadata (hit_document r)) = kind) kept)"
    by (simp add: contentsOfType_def)
  have sec: "\<And>title contents. contextSection title contents =
               (if contents = [] then []
                else title @ '':\<newline>'' @ join ''\<newline>\<newline>'' contents @ ''\<newline>\<newline>'')"
    by (simp add: contextSection_def)
  have ctx: "buildContext kept =
      ''Exam System Information:\<newline>\<newline>'' @
      contextSection ''EXAMS'' (contentsOfType ''exam'' kept) @
      contextSection ''FACULTY ALLOCATIONS'' (contentsOfType ''allocation'' kept) @
      contextSection ''ROOM ALLOCATIONS'' (contentsOfType ''room_allocation'' kept)"
    by (simp add: buildContext_def)
  have part: "mset (contentsOfType ''exam'' kept @ contentsOfType ''allocation'' kept
                    @ contentsOfType ''room_allocation'' kept)
          = mset (map (\<lambda>r. doc_content (hit_document r)) kept)"
    by (rule groups_partition)
  have sub: "\<forall>r \<in> set kept. sublist (doc_content (hit_document r)) (buildContext kept)"
    by (auto intro: buildContext_contains)
  have none: "kept = [] \<Longrightarrow> admin post_embeddings (Some search) post query
              = (SuccessAnswer ''No relevant exam data available for this query.'' [] None, [])"
    using assms rel by (simp add: admin_def getEmbedding_def Let_def)
  have some: "kept \<noteq> [] \<Longrightarrow> admin post_embeddings (Some search) post query
      = (case post \<lparr> url = LLAMA_API_URL @ ''/chat/completions'',
                      body = \<lparr> model = CHAT_MODEL,
                               messages =
                                 [\<lparr> m_role = ''system'',
                                    m_content = adminSystemPrompt (buildContext kept) \<rparr>,
                                  \<lparr> m_role = ''user'', m_content = toStr query \<rparr>],
                               temperature = 1 / 10, max_tokens = 600 \<rparr>,
                      timeout = None \<rparr> of
           Inl err \<Rightarrow> ServerError (''Chatbot failed: '' @ message_of err)
         | Inr [] \<Rightarrow>
             ServerError ''Chatbot failed: Cannot read properties of undefined (reading 'message')''
         | Inr (content # others) \<Rightarrow>
             SuccessAnswer content
               (map (\<lambda>r. type_of (doc_metadata (hit_document r))) kept)
               (Some (similarity (hd kept))),
         [\<lparr> url = LLAMA_API_URL @ ''/chat/completions'',
            body = \<lparr> model = CHAT_MODEL,
                     messages =
                       [\<lparr> m_role = ''system'',
                          m_content = adminSystemPrompt (buildContext kept) \<rparr>,
                        \<lparr> m_role = ''user'', m_content = toStr query \<rparr>],
                     temperature = 1 / 10, max_tokens = 600 \<rparr>,
            timeout = None \<rparr>])"
    using assms rel
    by (cases kept) (simp_all add: admin_def getEmbedding_def Let_def split: sum.splits list.splits)
  show ?thesis
    unfolding Let_def kept_def [symmetric] cot [symmetric] sec [symmetric] ctx [symmetric]
    using rel part sub none some
    by (simp add: LLAMA_API_URL_def CHAT_MODEL_def adminSystemPrompt_def)
qed

text \<open>
  C4 at seven candidates of which two are below 0.3 (five are grouped and rendered, one of
  them at 0.3 exactly), and at seven candidates all below 0.3.
\<close>

theorem C4_relevance_filter_witness:
  "admin steadyEmbedding (Some (\<lambda>options. Inr sevenHits)) answering (Str ''Where is the midterm?'')
     = (SuccessAnswer ''The midterm is in Main 101.''
          [''allocation'', ''exam'', ''room_allocation'', ''exam'', ''room_allocation'']
          (Some (9 / 10)),
        [\<lparr> url = ''http://localhost:1234/v1/chat/completions'',
           body = \<lparr> model = ''llama-3.2-1b-instruct'',
                    messages =
                      [\<lparr> m_role = ''system'',
                         m_content =
                           ''You are an exam administration assistant. Strictly use ONLY the following information.\<newline>If data is missing, respond with \"No data available\".\<newline>\<newline>RULES:\<newline>1. Be specific about dates, times, rooms, and faculty\<newline>2. For student counts, provide exact numbers\<newline>3. For room allocations, mention building and room number\<newline>4. Never invent information\<newline>\<newline>Exam System Information:\<newline>\<newline>EXAMS:\<newline>E1\<newline>\<newline>E2\<newline>\<newline>FACULTY ALLOCATIONS:\<newline>A1\<newline>\<newline>ROOM ALLOCATIONS:\<newline>R1\<newline>\<newline>R2\<newline>\<newline>'' \<rparr>,
                       \<lparr> m_role = ''user'', m_content = ''Where is the midterm?'' \<rparr>],
                    temperature = 1 / 10, max_tokens = 600 \<rparr>,
           timeout = None \<rparr>])
   \<and> admin steadyEmbedding (Some (\<lambda>options. Inr weakHits)) answering (Str ''Where is the midterm?'')
       = (SuccessAnswer ''No relevant exam data available for this query.'' [] None, [])"
proof -
  have q: "truthy (Str ''Where is the midterm?'')" by simp
  have e: "steadyEmbedding (Str ''Where is the midterm?'') = Inr [1 / 2, 1 / 4]"
    by (simp add: steadyEmbedding_def)
  have kept: "filter (\<lambda>r. 3 / 10 \<le> similarity r) sevenHits =
      [allocationHit ''A1'' 0.9, examHit ''E1'' 0.8, roomAllocationHit ''R1'' 0.5,
       examHit ''E2'' 0.45, roomAllocationHit ''R2'' 0.3]"
    by (simp add: sevenHits_def allocationHit_def examHit_def roomAllocationHit_def)
  have none: "filter (\<lambda>r. 3 / 10 \<le> similarity r) weakHits = []"
    by (simp add: weakHits_def allocationHit_def examHit_def roomAllocationHit_def)
  note sent = C4_relevance_filter
         [where query = "Str ''Where is the midterm?''" and post_embeddings = steadyEmbedding
            and queryEmbedding = "[1 / 2, 1 / 4]" and search = "\<lambda>options. Inr sevenHits"
            and results = sevenHits and post = answering, OF q e refl,
          unfolded Let_def kept]
  note unsent = C4_relevance_filter
         [where query = "Str ''Where is the midterm?''" and post_embeddings = steadyEmbedding
            and queryEmbedding = "[1 / 2, 1 / 4]" and search = "\<lambda>options. Inr weakHits"
            and results = weakHits and post = answering, OF q e refl,
          unfolded Let_def none]
  have first: "admin steadyEmbedding (Some (\<lambda>options. Inr sevenHits)) answering
                 (Str ''Where is the midterm?'')
     = (SuccessAnswer ''The midterm is in Main 101.''
          [''allocation'', ''exam'', ''room_allocation'', ''exam'', ''room_allocation'']
          (Some (9 / 10)),
        [\<lparr> url = ''http://localhost:1234/v1/chat/completions'',
           body = \<lparr> model = ''llama-3.2-1b-instruct'',
                    messages =
                      [\<lparr> m_role = ''system'',
                         m_content =
                           ''You are an exam administration assistant. Strictly use ONLY the following information.\<newline>If data is missing, respond with \"No data available\".\<newline>\<newline>RULES:\<newline>1. Be specific about dates, times, rooms, and faculty\<newline>2. For student counts, provide exact numbers\<newline>3. For room allocations, mention building and room number\<newline>4. Never invent information\<newline>\<newline>Exam System Information:\<newline>\<newline>EXAMS:\<newline>E1\<newline>\<newline>E2\<newline>\<newline>FACULTY ALLOCATIONS:\<newline>A1\<newline>\<newline>ROOM ALLOCATIONS:\<newline>R1\<newline>\<newline>R2\<newline>\<newline>'' \<rparr>,
                       \<lparr> m_role = ''user'', m_content = ''Where is the midterm?'' \<rparr>],
                    temperature = 1 / 10, max_tokens = 600 \<rparr>,
           timeout = None \<rparr>])"
    using sent
    by (simp add: allocationHit_def examHit_def roomAllocationHit_def answering_def)
  have second: "admin steadyEmbedding (Some (\<lambda>options. Inr weakHits)) answering
                 (Str ''Where is the midterm?'')
       = (SuccessAnswer ''No relevant exam data available for this query.'' [] None, [])"
    using unsent by simp
  show ?thesis by (intro conjI) (rule first, rule second)
qed

section \<open>Properties of request validation\<close>








end
